theory Spec2Isabelle
  imports Main "HOL-Library.Multiset" "HOL-Library.Char_ord" "HOL-Library.List_Lexorder"
    "HOL-Library.Sublist"
begin

section \<open>Go values\<close>

text \<open>
  The operation compiler of oapi-codegen (package codegen) walks a parsed
  OpenAPI document and builds operation, parameter, body and response descriptors.
  Go strings are byte strings and are modelled as \<open>string\<close>; their order
  (comparison of strings, \<open>sort.Strings\<close>) is the lexicographic order on bytes, which is the
  order of \<open>HOL-Library.List_Lexorder\<close> over \<open>HOL-Library.Char_ord\<close>.

  A returned \<open>error\<close> is \<open>Err\<close> with its message (\<open>fmt.Errorf\<close> with
  \<open>%s\<close> and \<open>%w\<close> verbs concatenates), a run-time panic is \<open>Panic\<close>.
  A fallible function returns \<open>error + 'a\<close>.
\<close>

datatype error = Err string | Panic string

text \<open>\<open>fmt.Errorf(msg + "%s", err)\<close>: wraps a returned error; a panic unwinds unchanged.\<close>

fun wrap :: "string \<Rightarrow> error \<Rightarrow> error" where
  "wrap msg (Err s) = Err (msg @ s)"
| "wrap msg (Panic s) = Panic s"

text \<open>
  A Go \<open>map[string]V\<close> of the document is an association list: \<open>lookup\<close> is
  \<open>m[k]\<close> (the first entry of a key counts), \<open>keys\<close> its key set as a duplicate-free
  list and \<open>len_map\<close> is \<open>len(m)\<close>. Go does not fix the order in which
  \<open>range\<close> visits a map: every loop over a map takes the order from a parameter
  \<open>\<rho>\<close>, which may rearrange the keys in any way (\<open>range_order\<close>).
\<close>

type_synonym 'v gomap = "(string \<times> 'v) list"

definition keys :: "'v gomap \<Rightarrow> string list" where
  "keys m = remdups (map fst m)"

definition len_map :: "'v gomap \<Rightarrow> nat" where
  "len_map m = length (keys m)"

definition lookup :: "'v gomap \<Rightarrow> string \<Rightarrow> 'v option" where
  "lookup m k = map_of m k"

definition range_keys :: "(string list \<Rightarrow> string list) \<Rightarrow> 'v gomap \<Rightarrow> string list" where
  "range_keys \<rho> m = \<rho> (keys m)"

definition range_order :: "(string list \<Rightarrow> string list) \<Rightarrow> bool" where
  "range_order \<rho> = (\<forall>ks. mset (\<rho> ks) = mset ks)"

text \<open>
  Modelled from the spec: the helpers \<open>SortedPathsKeys\<close>, \<open>SortedOperationsKeys\<close>,
  \<open>SortedContentKeys\<close>, \<open>SortedResponsesKeys\<close>, \<open>SortedHeadersKeys\<close> and
  \<open>SortedSecurityRequirementKeys\<close> of the package are not among the sources. The spec (section 5)
  says that every unordered collection is iterated in sorted-key order: each helper
  collects the keys of its map with a \<open>range\<close> loop and sorts them.
\<close>

definition SortedKeys :: "(string list \<Rightarrow> string list) \<Rightarrow> 'v gomap \<Rightarrow> string list" where
  "SortedKeys \<rho> m = sort (range_keys \<rho> m)"

section \<open>The document (package openapi3)\<close>

text \<open>
  Only the fields the compiler reads are kept. \<open>'s\<close> stands for a schema node
  (\<open>*openapi3.Schema\<close>) and \<open>'x\<close> for an extension value; both are opaque to
  this file. A pointer that may be \<open>nil\<close> is an \<open>option\<close>; the \<open>Value\<close> of a
  reference and the values stored in a map are taken to be present (the loader resolves
  them), except where the code itself tests for \<open>nil\<close>.
\<close>

record 's SchemaRef =
  sr_Ref :: string
  sr_Value :: 's

record Encoding =
  en_ContentType :: string
  en_Style :: string
  en_Explode :: "bool option"

record 's MediaType =
  mt_Schema :: "'s SchemaRef option"
  mt_Encoding :: "Encoding gomap"

record ('s, 'x) Parameter =
  p_Name :: string
  p_In :: string
  p_Description :: string
  p_Style :: string
  p_Explode :: "bool option"
  p_Required :: bool
  p_Schema :: "'s SchemaRef option"
  p_Content :: "'s MediaType gomap"
  p_Extensions :: "'x gomap"

record ('s, 'x) ParameterRef =
  pr_Ref :: string
  pr_Value :: "('s, 'x) Parameter"

record 's RequestBody =
  rb_Required :: bool
  rb_Content :: "'s MediaType gomap"

record 's RequestBodyRef =
  rbr_Ref :: string
  rbr_Value :: "'s RequestBody"

text \<open>A response header is kept as the schema of its value (\<open>header.Value.Schema\<close>).\<close>

record 's Response =
  rs_Description :: "string option"
  rs_Headers :: "'s SchemaRef option gomap"
  rs_Content :: "'s MediaType gomap"

record 's ResponseRef =
  rr_Ref :: string
  rr_Value :: "'s Response"

type_synonym SecurityRequirement = "string list gomap"

text \<open>
  A server is kept as its URL. \<open>op_Security\<close> is the pointer \<open>*SecurityRequirements\<close>:
  \<open>None\<close> when the operation has no \<open>security\<close> field. The values of the
  \<open>Responses\<close> map are pointers the code tests for \<open>nil\<close>.
\<close>

record ('s, 'x) Operation =
  op_OperationID :: string
  op_Summary :: string
  op_Description :: string
  op_Parameters :: "('s, 'x) ParameterRef list"
  op_RequestBody :: "'s RequestBodyRef option"
  op_Responses :: "'s ResponseRef option gomap"
  op_Security :: "SecurityRequirement list option"
  op_Servers :: "string list option"

text \<open>
  \<open>pi_Operations\<close> is the map \<open>pathItem.Operations()\<close> builds from the method fields
  of the path item, keyed by the HTTP method.
\<close>

record ('s, 'x) PathItem =
  pi_Parameters :: "('s, 'x) ParameterRef list"
  pi_Servers :: "string list option"
  pi_Operations :: "('s, 'x) Operation gomap"

record ('s, 'x) T =
  t_Paths :: "('s, 'x) PathItem gomap"
  t_Security :: "SecurityRequirement list"

section \<open>Schema descriptors (package codegen)\<close>

text \<open>
  The declarations of \<open>Schema\<close>, \<open>Property\<close> and \<open>TypeDefinition\<close> are not among
  the sources; the fields are the ones the operation compiler reads or writes.
\<close>

datatype 'x Schema = Schema
  (GoType: string)
  (RefType: string)
  (Properties: "'x Property list")
  (HasAdditionalProperties: bool)
  (SkipOptionalPointer: bool)
  (sc_Description: string)
and 'x Property = Property
  (prop_Description: string)
  (JsonFieldName: string)
  (prop_Required: bool)
  (prop_Schema: "'x Schema")
  (NeedsFormTag: bool)
  (prop_Extensions: "'x gomap")

text \<open>\<open>Schema{}\<close>, the zero value.\<close>

definition Schema_zero :: "'x Schema" where
  "Schema_zero = Schema [] [] [] False False []"

definition set_GoType :: "string \<Rightarrow> 'x Schema \<Rightarrow> 'x Schema" where
  "set_GoType v s = Schema v (RefType s) (Properties s) (HasAdditionalProperties s)
     (SkipOptionalPointer s) (sc_Description s)"

definition set_RefType :: "string \<Rightarrow> 'x Schema \<Rightarrow> 'x Schema" where
  "set_RefType v s = Schema (GoType s) v (Properties s) (HasAdditionalProperties s)
     (SkipOptionalPointer s) (sc_Description s)"

definition set_Properties :: "'x Property list \<Rightarrow> 'x Schema \<Rightarrow> 'x Schema" where
  "set_Properties v s = Schema (GoType s) (RefType s) v (HasAdditionalProperties s)
     (SkipOptionalPointer s) (sc_Description s)"

definition set_Description :: "string \<Rightarrow> 'x Schema \<Rightarrow> 'x Schema" where
  "set_Description v s = Schema (GoType s) (RefType s) (Properties s)
     (HasAdditionalProperties s) (SkipOptionalPointer s) v"

definition set_NeedsFormTag :: "bool \<Rightarrow> 'x Property \<Rightarrow> 'x Property" where
  "set_NeedsFormTag v p = Property (prop_Description p) (JsonFieldName p) (prop_Required p)
     (prop_Schema p) v (prop_Extensions p)"

record 'x TypeDefinition =
  TypeName :: string
  td_Schema :: "'x Schema"

section \<open>Parameter definitions\<close>

record ('s, 'x) ParameterDefinition =
  ParamName :: string
  pd_In :: string
  pd_Required :: bool
  pd_Spec :: "('s, 'x) Parameter"
  pd_Schema :: "'x Schema"

text \<open>
  \<open>IsJson\<close>: with exactly one content type, the loop over the map visits that key.
  \<open>isJson\<close> stands for \<open>util.IsMediaTypeJson\<close>, which is not among the sources.
\<close>

definition IsJson ::
  "(string list \<Rightarrow> string list) \<Rightarrow> (string \<Rightarrow> bool) \<Rightarrow> ('s, 'x) ParameterDefinition \<Rightarrow> bool" where
  "IsJson \<rho> isJson pd =
     (let p = pd_Spec pd in
      if len_map (p_Content p) = 1
      then list_ex isJson (range_keys \<rho> (p_Content p))
      else False)"

definition IsPassThrough ::
  "(string list \<Rightarrow> string list) \<Rightarrow> (string \<Rightarrow> bool) \<Rightarrow> ('s, 'x) ParameterDefinition \<Rightarrow> bool" where
  "IsPassThrough \<rho> isJson pd =
     (let p = pd_Spec pd in
      if len_map (p_Content p) > 1 then True
      else if len_map (p_Content p) = 1 then \<not> IsJson \<rho> isJson pd
      else False)"

definition IsStyled :: "('s, 'x) ParameterDefinition \<Rightarrow> bool" where
  "IsStyled pd = (p_Schema (pd_Spec pd) \<noteq> None)"

definition Style :: "('s, 'x) ParameterDefinition \<Rightarrow> error + string" where
  "Style pd =
     (let style = p_Style (pd_Spec pd) in
      if style = [] then
        (let loc = p_In (pd_Spec pd) in
         if loc = ''path'' \<or> loc = ''header'' then Inr ''simple''
         else if loc = ''query'' \<or> loc = ''cookie'' then Inr ''form''
         else Inl (Panic ''unknown parameter format''))
      else Inr style)"

definition Explode :: "('s, 'x) ParameterDefinition \<Rightarrow> error + bool" where
  "Explode pd =
     (case p_Explode (pd_Spec pd) of
        None \<Rightarrow>
          (let loc = p_In (pd_Spec pd) in
           if loc = ''path'' \<or> loc = ''header'' then Inr False
           else if loc = ''query'' \<or> loc = ''cookie'' then Inr True
           else Inl (Panic ''unknown parameter format''))
      | Some b \<Rightarrow> Inr b)"

text \<open>\<open>FindByName\<close>: the first parameter of that name, \<open>None\<close> for \<open>nil\<close>.\<close>

fun FindByName ::
  "('s, 'x) ParameterDefinition list \<Rightarrow> string \<Rightarrow> ('s, 'x) ParameterDefinition option" where
  "FindByName [] name = None"
| "FindByName (param # ps) name =
     (if ParamName param = name then Some param else FindByName ps name)"

fun FilterParameterDefinitionByType ::
  "('s, 'x) ParameterDefinition list \<Rightarrow> string \<Rightarrow> ('s, 'x) ParameterDefinition list" where
  "FilterParameterDefinitionByType [] loc = []"
| "FilterParameterDefinitionByType (p # ps) loc =
     (if pd_In p = loc then p # FilterParameterDefinitionByType ps loc
      else FilterParameterDefinitionByType ps loc)"

section \<open>Operation identifiers\<close>

text \<open>
  \<open>strings.Split(s, "/")\<close>: the pieces of \<open>s\<close> between separators; always at least one piece.
\<close>

fun split_on :: "char \<Rightarrow> string \<Rightarrow> string list" where
  "split_on sep [] = [[]]"
| "split_on sep (c # cs) =
     (if c = sep then [] # split_on sep cs
      else (case split_on sep cs of
              [] \<Rightarrow> [[c]]
            | p # ps \<Rightarrow> (c # p) # ps))"

text \<open>
  \<open>strings.ToLower\<close> on ASCII: the letters \<open>A\<close> to \<open>Z\<close> are mapped, every other byte is
  kept (Go also maps upper-case letters outside ASCII; HTTP method names have none).
\<close>

definition upper_letters :: string where
  "upper_letters = ''ABCDEFGHIJKLMNOPQRSTUVWXYZ''"

definition lower_letters :: string where
  "lower_letters = ''abcdefghijklmnopqrstuvwxyz''"

definition lower_char :: "char \<Rightarrow> char" where
  "lower_char c =
     (case map_of (zip upper_letters lower_letters) c of Some l \<Rightarrow> l | None \<Rightarrow> c)"

definition ToLower :: "string \<Rightarrow> string" where
  "ToLower s = map lower_char s"

definition isPathParam :: "string \<Rightarrow> bool" where
  "isPathParam part =
     (if length part < 2 then False
      else hd part = CHR ''{'' \<and> last part = CHR ''}'')"

fun getPathParamCount :: "string list \<Rightarrow> nat" where
  "getPathParamCount [] = 0"
| "getPathParamCount (part # parts) =
     (if length part < 2 then getPathParamCount parts
      else if isPathParam part then Suc (getPathParamCount parts)
      else getPathParamCount parts)"

text \<open>The loop of \<open>isSinglePathWithParams\<close>, from index \<open>i\<close> on.\<close>

fun isSinglePathWithParams_from :: "nat \<Rightarrow> string list \<Rightarrow> bool" where
  "isSinglePathWithParams_from i [] = True"
| "isSinglePathWithParams_from i (part # parts) =
     (if i \<le> 1 \<and> isPathParam part then False
      else if i > 1 \<and> \<not> isPathParam part then False
      else isSinglePathWithParams_from (Suc i) parts)"

definition isSinglePathWithParams :: "string list \<Rightarrow> bool" where
  "isSinglePathWithParams parts = isSinglePathWithParams_from 0 parts"

text \<open>
  \<open>for _, part := range parts { if part != "" { operationId = operationId + "-" + part } }\<close>
\<close>

fun append_parts :: "string \<Rightarrow> string list \<Rightarrow> string" where
  "append_parts operationId [] = operationId"
| "append_parts operationId (part # parts) =
     (if part \<noteq> [] then append_parts (operationId @ ''-'' @ part) parts
      else append_parts operationId parts)"

text \<open>\<open>parts[i]\<close>: an index out of range panics.\<close>

definition index :: "string list \<Rightarrow> nat \<Rightarrow> error + string" where
  "index parts i =
     (if i < length parts then Inr (parts ! i) else Inl (Panic ''index out of range''))"

text \<open>The \<open>switch opName\<close> that picks the verb, the same in three branches.\<close>

definition verb_prefixed :: "string \<Rightarrow> string \<Rightarrow> string \<Rightarrow> string" where
  "verb_prefixed opName operationId part1 =
     (if opName = ''GET'' then ''Read-'' @ part1
      else if opName = ''POST'' then ''Create-'' @ part1
      else if opName = ''PUT'' then ''Update-'' @ part1
      else operationId @ ''-'' @ part1)"

text \<open>
  \<open>generateDefaultOperationID\<close>; \<open>camel\<close> stands for \<open>ToCamelCase\<close>,
  which is not among the sources.
\<close>

definition generateDefaultOperationID ::
  "(string \<Rightarrow> string) \<Rightarrow> string \<Rightarrow> string \<Rightarrow> int \<Rightarrow> error + string" where
  "generateDefaultOperationID camel opName requestPath pathOpCount =
     (let operationId = ToLower opName in
      if opName = [] then Inl (Err ''operation name cannot be an empty string'')
      else if requestPath = [] then Inl (Err ''request path cannot be an empty string'')
      else
        (let parts = split_on CHR ''/'' requestPath;
             pathParamCount = getPathParamCount parts
         in
         if pathParamCount > 1 then
           (if isSinglePathWithParams parts then
              (case index parts 1 of
                 Inl e \<Rightarrow> Inl e
               | Inr part1 \<Rightarrow> Inr (camel (operationId @ ''-'' @ part1)))
            else Inr (camel (append_parts operationId parts)))
         else if length parts = 2 then
           (if opName = ''GET'' then
              (if parts ! 1 = ''healthz'' then Inr (camel ''Health-Check'')
               else if pathOpCount > 1 then Inr (camel (''Read-'' @ parts ! 1 @ ''-List''))
               else Inr (camel (''Read-'' @ parts ! 1)))
            else Inr (camel (verb_prefixed opName operationId (parts ! 1))))
         else if length parts \<ge> 3 \<and> isPathParam (parts ! 2) then
           (let operationId' = append_parts (verb_prefixed opName operationId (parts ! 1))
                                 (drop 3 parts)
            in if parts ! 2 \<noteq> ''{id}''
               then Inr (camel (operationId' @ ''-by-'' @ parts ! 2))
               else Inr (camel operationId'))
         else if pathParamCount = 0 then
           (case index parts 1 of
              Inl e \<Rightarrow> Inl e
            | Inr part1 \<Rightarrow>
                Inr (camel (append_parts (verb_prefixed opName operationId part1)
                              (drop 2 parts))))
         else Inr (camel (append_parts operationId parts))))"

text \<open>ASCII letters and digits.\<close>

definition is_upper :: "char \<Rightarrow> bool" where
  "is_upper c = (c \<in> set upper_letters)"

definition is_lower :: "char \<Rightarrow> bool" where
  "is_lower c = (c \<in> set lower_letters)"

definition is_digit :: "char \<Rightarrow> bool" where
  "is_digit c = (c \<in> set ''0123456789'')"

definition upper_char :: "char \<Rightarrow> char" where
  "upper_char c =
     (case map_of (zip lower_letters upper_letters) c of Some u \<Rightarrow> u | None \<Rightarrow> c)"

text \<open>
  Modelled from the spec: \<open>ToCamelCase\<close> is not among the sources. The spec
  (section 4.1) says that the normalizer collapses separators, title-cases the segments
  and strips the characters that are illegal in an identifier: letters and digits are
  kept, every other byte is dropped and separates two segments, and the first letter of
  a segment is put in upper case.
\<close>

fun camel_from :: "bool \<Rightarrow> string \<Rightarrow> string" where
  "camel_from capNext [] = []"
| "camel_from capNext (c # cs) =
     (if is_upper c \<or> is_digit c then c # camel_from False cs
      else if is_lower c then (if capNext then upper_char c else c) # camel_from False cs
      else camel_from True cs)"

definition ToCamelCase :: "string \<Rightarrow> string" where
  "ToCamelCase s = camel_from True s"

section \<open>Functions of the package that are not among the sources\<close>

text \<open>
  The operation compiler calls other functions of package codegen and of package util; they
  are parameters of the model, collected in one record. A function that returns
  \<open>(value, error)\<close> returns \<open>error + value\<close> here.
\<close>

record ('s, 'x) helpers =
  h_ToCamelCase :: "string \<Rightarrow> string"
  h_typeNamePrefix :: "string \<Rightarrow> string"
  h_IsMediaTypeJson :: "string \<Rightarrow> bool"
  h_paramToGoType :: "('s, 'x) Parameter \<Rightarrow> string list \<Rightarrow> error + 'x Schema"
  h_GenerateGoSchema :: "'s SchemaRef option \<Rightarrow> string list \<Rightarrow> error + 'x Schema"
  h_IsGoTypeReference :: "string \<Rightarrow> bool"
  h_RefPathToGoType :: "string \<Rightarrow> error + string"
  h_SortParamsByPath ::
    "string \<Rightarrow> ('s, 'x) ParameterDefinition list \<Rightarrow> error + ('s, 'x) ParameterDefinition list"
  h_SchemaNameToTypeName :: "string \<Rightarrow> string"
  h_GenStructFromSchema :: "'x Schema \<Rightarrow> string"
  h_GetAdditionalTypeDefs :: "'x Schema \<Rightarrow> 'x TypeDefinition list"
  h_extGoName :: string
  h_extParseGoFieldName :: "'x \<Rightarrow> error + string"

text \<open>
  The loop \<open>for _, x := range xs { y, err := f(x); if err != nil { return nil, err };
  out = append(out, y) }\<close> over a slice: the first failure ends it.
\<close>

fun try_map :: "('a \<Rightarrow> error + 'b) \<Rightarrow> 'a list \<Rightarrow> error + 'b list" where
  "try_map f [] = Inr []"
| "try_map f (x # xs) =
     (case f x of
        Inl e \<Rightarrow> Inl e
      | Inr y \<Rightarrow> (case try_map f xs of Inl e \<Rightarrow> Inl e | Inr ys \<Rightarrow> Inr (y # ys)))"

definition nil_dereference :: error where
  "nil_dereference = Panic ''invalid memory address or nil pointer dereference''"

section \<open>Describing parameters and security\<close>

text \<open>
  \<open>GoName\<close>: the name of the \<open>extGoName\<close> extension when the parameter has one that
  parses, its own name otherwise; a panic of the parser unwinds.
\<close>

definition GoName :: "('s, 'x) helpers \<Rightarrow> ('s, 'x) ParameterDefinition \<Rightarrow> error + string" where
  "GoName h pd =
     (case lookup (p_Extensions (pd_Spec pd)) (h_extGoName h) of
        None \<Rightarrow> Inr (h_SchemaNameToTypeName h (ParamName pd))
      | Some ext \<Rightarrow>
          (case h_extParseGoFieldName h ext of
             Inr extGoFieldName \<Rightarrow> Inr (h_SchemaNameToTypeName h extGoFieldName)
           | Inl (Err _) \<Rightarrow> Inr (h_SchemaNameToTypeName h (ParamName pd))
           | Inl (Panic m) \<Rightarrow> Inl (Panic m)))"

text \<open>One round of the loop of \<open>DescribeParameters\<close>.\<close>

definition describeParameter ::
  "('s, 'x) helpers \<Rightarrow> string list \<Rightarrow> ('s, 'x) ParameterRef \<Rightarrow>
     error + ('s, 'x) ParameterDefinition" where
  "describeParameter h path paramOrRef =
     (let param = pr_Value paramOrRef in
      case h_paramToGoType h param (path @ [p_Name param]) of
        Inl e \<Rightarrow> Inl (wrap (''error generating type for param ('' @ p_Name param @ ''): '') e)
      | Inr goType \<Rightarrow>
          (let pd = \<lparr>ParamName = p_Name param, pd_In = p_In param,
                      pd_Required = p_Required param, pd_Spec = param, pd_Schema = goType\<rparr>
           in if h_IsGoTypeReference h (pr_Ref paramOrRef) then
                (case h_RefPathToGoType h (pr_Ref paramOrRef) of
                   Inl e \<Rightarrow>
                     Inl (wrap (''error dereferencing ('' @ pr_Ref paramOrRef @ '') for param (''
                                @ p_Name param @ ''): '') e)
                 | Inr goType' \<Rightarrow> Inr (pd\<lparr>pd_Schema := set_GoType goType' (pd_Schema pd)\<rparr>))
              else Inr pd))"

definition DescribeParameters ::
  "('s, 'x) helpers \<Rightarrow> ('s, 'x) ParameterRef list \<Rightarrow> string list \<Rightarrow>
     error + ('s, 'x) ParameterDefinition list" where
  "DescribeParameters h params path = try_map (describeParameter h path) params"

record SecurityDefinition =
  ProviderName :: string
  Scopes :: "string list"

text \<open>
  \<open>v := sr[k]\<close> for a key of \<open>sr\<close>; a key that is not in the map reads the zero value, a
  \<open>nil\<close> slice.
\<close>

definition DescribeSecurityDefinition ::
  "(string list \<Rightarrow> string list) \<Rightarrow> SecurityRequirement list \<Rightarrow> SecurityDefinition list" where
  "DescribeSecurityDefinition \<rho> securityRequirements =
     concat (map (\<lambda>sr. map (\<lambda>k. \<lparr>ProviderName = k,
                                   Scopes = (case lookup sr k of None \<Rightarrow> [] | Some v \<Rightarrow> v)\<rparr>)
                           (SortedKeys \<rho> sr))
                 securityRequirements)"

section \<open>Request bodies\<close>

record RequestBodyEncoding =
  rbe_ContentType :: string
  rbe_Style :: string
  rbe_Explode :: "bool option"

text \<open>
  The \<open>Encoding\<close> of a body definition is a map the compiler builds; it is a function
  \<open>string \<rightharpoonup> RequestBodyEncoding\<close>, the empty one for \<open>nil\<close>.
\<close>

record 'x RequestBodyDefinition =
  bd_Required :: bool
  bd_Schema :: "'x Schema"
  NameTag :: string
  ContentType :: string
  Default :: bool
  bd_Encoding :: "string \<rightharpoonup> RequestBodyEncoding"

definition Suffix :: "'x RequestBodyDefinition \<Rightarrow> string" where
  "Suffix r = (if Default r then [] else ''With'' @ NameTag r @ ''Body'')"

definition IsSupportedByClient :: "'x RequestBodyDefinition \<Rightarrow> bool" where
  "IsSupportedByClient r =
     (NameTag r = ''JSON'' \<or> NameTag r = ''Formdata'' \<or> NameTag r = ''Text'')"

definition IsSupported :: "'x RequestBodyDefinition \<Rightarrow> bool" where
  "IsSupported r = (NameTag r \<noteq> [])"

text \<open>
  The \<open>switch\<close> of \<open>GenerateBodyDefinitions\<close> on the content type: the tag and the
  default flag, \<open>None\<close> in the \<open>default\<close> case.
\<close>

definition body_tag :: "(string \<Rightarrow> bool) \<Rightarrow> string \<Rightarrow> (string \<times> bool) option" where
  "body_tag isJson contentType =
     (if isJson contentType then Some (''JSON'', True)
      else if prefix ''multipart/'' contentType then Some (''Multipart'', False)
      else if contentType = ''application/x-www-form-urlencoded'' then Some (''Formdata'', False)
      else if contentType = ''text/plain'' then Some (''Text'', False)
      else None)"

text \<open>
  \<open>for k, v := range content.Encoding { bd.Encoding[k] = encoding }\<close>: the loop visits the
  keys in the order \<open>\<rho>\<close> gives.
\<close>

definition body_encodings ::
  "(string list \<Rightarrow> string list) \<Rightarrow> Encoding gomap \<Rightarrow> (string \<rightharpoonup> RequestBodyEncoding)" where
  "body_encodings \<rho> enc =
     fold (\<lambda>k m. case lookup enc k of
                    None \<Rightarrow> m
                  | Some v \<Rightarrow> m(k \<mapsto> \<lparr>rbe_ContentType = en_ContentType v,
                                        rbe_Style = en_Style v,
                                        rbe_Explode = en_Explode v\<rparr>))
          (range_keys \<rho> enc) Map.empty"

text \<open>
  One round of the loop of \<open>GenerateBodyDefinitions\<close>: the body definition of a content
  type and the type definition it adds, if any.
\<close>

definition body_step ::
  "('s, 'x) helpers \<Rightarrow> (string list \<Rightarrow> string list) \<Rightarrow> string \<Rightarrow> 's RequestBody \<Rightarrow> string \<Rightarrow>
     error + ('x RequestBodyDefinition \<times> 'x TypeDefinition option)" where
  "body_step h \<rho> operationID body contentType =
     (case body_tag (h_IsMediaTypeJson h) contentType of
        None \<Rightarrow>
          Inr (\<lparr>bd_Required = rb_Required body, bd_Schema = Schema_zero, NameTag = [],
                ContentType = contentType, Default = False, bd_Encoding = Map.empty\<rparr>, None)
      | Some (tag, defaultBody) \<Rightarrow>
          (case lookup (rb_Content body) contentType of
             None \<Rightarrow> Inl nil_dereference
           | Some content \<Rightarrow>
               (let bodyTypeName = operationID @ tag @ ''Body'' in
                case h_GenerateGoSchema h (mt_Schema content) [bodyTypeName] of
                  Inl e \<Rightarrow> Inl (wrap ''error generating request body definition: '' e)
                | Inr bodySchema \<Rightarrow>
                    (case mt_Schema content of
                       None \<Rightarrow> Inl nil_dereference
                     | Some schemaRef \<Rightarrow>
                         (case (if h_IsGoTypeReference h (sr_Ref schemaRef) then
                                  (case h_RefPathToGoType h (sr_Ref schemaRef) of
                                     Inl e \<Rightarrow>
                                       Inl (wrap (''error turning reference ('' @ sr_Ref schemaRef
                                                  @ '') into a Go type: '') e)
                                   | Inr refType \<Rightarrow> Inr (set_RefType refType bodySchema))
                                else Inr bodySchema) of
                            Inl e \<Rightarrow> Inl e
                          | Inr bodySchema1 \<Rightarrow>
                              (let formSchema =
                                     (if contentType = ''application/x-www-form-urlencoded'' then
                                        (let tagged = set_Properties
                                               (map (set_NeedsFormTag True) (Properties bodySchema1))
                                               bodySchema1
                                         in set_GoType (h_GenStructFromSchema h tagged) tagged)
                                      else bodySchema1);
                                   (bodySchema2, td) =
                                     (if RefType bodySchema1 = [] then
                                        (set_RefType bodyTypeName formSchema,
                                         Some \<lparr>TypeName = bodyTypeName, td_Schema = formSchema\<rparr>)
                                      else (bodySchema1, None))
                               in Inr (\<lparr>bd_Required = rb_Required body, bd_Schema = bodySchema2,
                                         NameTag = tag, ContentType = contentType,
                                         Default = defaultBody,
                                         bd_Encoding =
                                           (if len_map (mt_Encoding content) \<noteq> 0
                                            then body_encodings \<rho> (mt_Encoding content)
                                            else Map.empty)\<rparr>, td)))))))"

text \<open>
  \<open>sort.Slice\<close> with \<open>bodyDefinitions[i].ContentType less than bodyDefinitions[j].ContentType\<close>:
  the content types are the keys of one map, so no two definitions compare equal and the
  sorted order is unique; \<open>sort_key\<close> gives it.
\<close>

definition GenerateBodyDefinitions ::
  "('s, 'x) helpers \<Rightarrow> (string list \<Rightarrow> string list) \<Rightarrow> string \<Rightarrow> 's RequestBodyRef option \<Rightarrow>
     error + ('x RequestBodyDefinition list \<times> 'x TypeDefinition list)" where
  "GenerateBodyDefinitions h \<rho> operationID bodyOrRef =
     (case bodyOrRef of
        None \<Rightarrow> Inr ([], [])
      | Some ref \<Rightarrow>
          (let body = rbr_Value ref in
           case try_map (body_step h \<rho> operationID body) (SortedKeys \<rho> (rb_Content body)) of
             Inl e \<Rightarrow> Inl e
           | Inr steps \<Rightarrow>
               Inr (sort_key ContentType (map fst steps), List.map_filter snd steps)))"

section \<open>Responses\<close>

record 'x ResponseContentDefinition =
  rcd_Schema :: "'x Schema"
  rcd_ContentType :: string
  rcd_NameTag :: string

record 'x ResponseHeaderDefinition =
  hd_Name :: string
  hd_GoName :: string
  hd_Schema :: "'x Schema"

record 'x ResponseDefinition =
  StatusCode :: string
  rd_Description :: string
  Contents :: "'x ResponseContentDefinition list"
  Headers :: "'x ResponseHeaderDefinition list"
  Ref :: string

definition IsRef :: "'x ResponseDefinition \<Rightarrow> bool" where
  "IsRef r = (Ref r \<noteq> [])"

definition response_tag :: "(string \<Rightarrow> bool) \<Rightarrow> string \<Rightarrow> string option" where
  "response_tag isJson contentType =
     (if isJson contentType then Some ''JSON''
      else if contentType = ''application/x-www-form-urlencoded'' then Some ''Formdata''
      else if prefix ''multipart/'' contentType then Some ''Multipart''
      else if contentType = ''text/plain'' then Some ''Text''
      else None)"

definition response_content_step ::
  "('s, 'x) helpers \<Rightarrow> string \<Rightarrow> string \<Rightarrow> 's Response \<Rightarrow> string \<Rightarrow>
     error + 'x ResponseContentDefinition" where
  "response_content_step h operationID statusCode response contentType =
     (case response_tag (h_IsMediaTypeJson h) contentType of
        None \<Rightarrow>
          Inr \<lparr>rcd_Schema = Schema_zero, rcd_ContentType = contentType, rcd_NameTag = []\<rparr>
      | Some tag \<Rightarrow>
          (case lookup (rs_Content response) contentType of
             None \<Rightarrow> Inl nil_dereference
           | Some content \<Rightarrow>
               (let responseTypeName = operationID @ statusCode @ tag @ ''Response'' in
                case h_GenerateGoSchema h (mt_Schema content) [responseTypeName] of
                  Inl e \<Rightarrow> Inl (wrap ''error generating request body definition: '' e)
                | Inr contentSchema \<Rightarrow>
                    Inr \<lparr>rcd_Schema = contentSchema, rcd_ContentType = contentType,
                         rcd_NameTag = tag\<rparr>)))"

definition response_header_step ::
  "('s, 'x) helpers \<Rightarrow> 's Response \<Rightarrow> string \<Rightarrow> error + 'x ResponseHeaderDefinition" where
  "response_header_step h response headerName =
     (case lookup (rs_Headers response) headerName of
        None \<Rightarrow> Inl nil_dereference
      | Some schema \<Rightarrow>
          (case h_GenerateGoSchema h schema [] of
             Inl e \<Rightarrow> Inl (wrap ''error generating response header definition: '' e)
           | Inr contentSchema \<Rightarrow>
               Inr \<lparr>hd_Name = headerName, hd_GoName = h_SchemaNameToTypeName h headerName,
                    hd_Schema = contentSchema\<rparr>))"

text \<open>
  One round of the loop of \<open>GenerateResponseDefinitions\<close> for a response that is not
  \<open>nil\<close>: the definition and the new \<open>refSet\<close>.
\<close>

definition response_step ::
  "('s, 'x) helpers \<Rightarrow> (string list \<Rightarrow> string list) \<Rightarrow> string \<Rightarrow> string set \<Rightarrow> string \<Rightarrow>
     's ResponseRef \<Rightarrow> error + ('x ResponseDefinition \<times> string set)" where
  "response_step h \<rho> operationID refSet statusCode responseOrRef =
     (let response = rr_Value responseOrRef in
      case try_map (response_content_step h operationID statusCode response)
             (SortedKeys \<rho> (rs_Content response)) of
        Inl e \<Rightarrow> Inl e
      | Inr responseContentDefinitions \<Rightarrow>
          (case try_map (response_header_step h response)
                  (SortedKeys \<rho> (rs_Headers response)) of
             Inl e \<Rightarrow> Inl e
           | Inr responseHeaderDefinitions \<Rightarrow>
               (let rd = \<lparr>StatusCode = statusCode,
                           rd_Description =
                             (case rs_Description response of None \<Rightarrow> [] | Some d \<Rightarrow> d),
                           Contents = responseContentDefinitions,
                           Headers = responseHeaderDefinitions,
                           Ref = []\<rparr>
                in if h_IsGoTypeReference h (rr_Ref responseOrRef) then
                     (case h_RefPathToGoType h (rr_Ref responseOrRef) of
                        Inl e \<Rightarrow>
                          Inl (wrap (''error turning reference ('' @ rr_Ref responseOrRef
                                     @ '') into a Go type: '') e)
                      | Inr refType \<Rightarrow>
                          (if refType \<notin> refSet
                           then Inr (rd\<lparr>Ref := refType\<rparr>, insert refType refSet)
                           else Inr (rd, refSet)))
                   else Inr (rd, refSet))))"

text \<open>The loop over the sorted status codes, with \<open>refSet\<close> as its state.\<close>

fun responses_loop ::
  "('s, 'x) helpers \<Rightarrow> (string list \<Rightarrow> string list) \<Rightarrow> string \<Rightarrow> 's ResponseRef option gomap \<Rightarrow>
     string set \<Rightarrow> string list \<Rightarrow> error + 'x ResponseDefinition list" where
  "responses_loop h \<rho> operationID responses refSet [] = Inr []"
| "responses_loop h \<rho> operationID responses refSet (statusCode # rest) =
     (case lookup responses statusCode of
        None \<Rightarrow> responses_loop h \<rho> operationID responses refSet rest
      | Some None \<Rightarrow> responses_loop h \<rho> operationID responses refSet rest
      | Some (Some responseOrRef) \<Rightarrow>
          (case response_step h \<rho> operationID refSet statusCode responseOrRef of
             Inl e \<Rightarrow> Inl e
           | Inr (rd, refSet') \<Rightarrow>
               (case responses_loop h \<rho> operationID responses refSet' rest of
                  Inl e \<Rightarrow> Inl e
                | Inr rds \<Rightarrow> Inr (rd # rds))))"

definition GenerateResponseDefinitions ::
  "('s, 'x) helpers \<Rightarrow> (string list \<Rightarrow> string list) \<Rightarrow> string \<Rightarrow> 's ResponseRef option gomap \<Rightarrow>
     error + 'x ResponseDefinition list" where
  "GenerateResponseDefinitions h \<rho> operationID responses =
     responses_loop h \<rho> operationID responses {} (SortedKeys \<rho> responses)"

section \<open>Operations\<close>

record ('s, 'x) OperationDefinition =
  OperationId :: string
  PathParams :: "('s, 'x) ParameterDefinition list"
  HeaderParams :: "('s, 'x) ParameterDefinition list"
  QueryParams :: "('s, 'x) ParameterDefinition list"
  CookieParams :: "('s, 'x) ParameterDefinition list"
  TypeDefinitions :: "'x TypeDefinition list"
  SecurityDefinitions :: "SecurityDefinition list"
  BodyRequired :: bool
  Bodies :: "'x RequestBodyDefinition list"
  Responses :: "'x ResponseDefinition list"
  Summary :: string
  Method :: string
  Path :: string
  od_Spec :: "('s, 'x) Operation"

definition Params :: "('s, 'x) OperationDefinition \<Rightarrow> ('s, 'x) ParameterDefinition list" where
  "Params od = QueryParams od @ HeaderParams od @ CookieParams od"

definition AllParams :: "('s, 'x) OperationDefinition \<Rightarrow> ('s, 'x) ParameterDefinition list" where
  "AllParams od = QueryParams od @ HeaderParams od @ CookieParams od @ PathParams od"

definition RequiresParamObject :: "('s, 'x) OperationDefinition \<Rightarrow> bool" where
  "RequiresParamObject od = (length (Params od) > 0)"

definition HasBody :: "('s, 'x) OperationDefinition \<Rightarrow> bool" where
  "HasBody od = (op_RequestBody (od_Spec od) \<noteq> None)"

text \<open>
  One round of the loop of \<open>GenerateParamsTypes\<close>: the type definition a parameter with
  additional properties adds, and the property of the parameter. \<open>param.Style()\<close> is
  called first and may panic.
\<close>

definition params_type_step ::
  "('s, 'x) helpers \<Rightarrow> string \<Rightarrow> ('s, 'x) ParameterDefinition \<Rightarrow>
     error + ('x TypeDefinition option \<times> 'x Property)" where
  "params_type_step h typeName param =
     (case Style param of
        Inl e \<Rightarrow> Inl e
      | Inr style \<Rightarrow>
          (case (if HasAdditionalProperties (pd_Schema param) then
                   (case GoName h param of
                      Inl e \<Rightarrow> Inl e
                    | Inr goName \<Rightarrow>
                        (let propRefName = typeName @ ''_'' @ goName in
                         Inr (set_RefType propRefName (pd_Schema param),
                              Some \<lparr>TypeName = propRefName, td_Schema = pd_Schema param\<rparr>)))
                 else Inr (pd_Schema param, None)) of
             Inl e \<Rightarrow> Inl e
           | Inr (pSchema, td) \<Rightarrow>
               Inr (td, Property (p_Description (pd_Spec param)) (ParamName param)
                          (pd_Required param) pSchema (style = ''form'')
                          (p_Extensions (pd_Spec param)))))"

definition GenerateParamsTypes ::
  "('s, 'x) helpers \<Rightarrow> ('s, 'x) OperationDefinition \<Rightarrow> error + 'x TypeDefinition list" where
  "GenerateParamsTypes h op =
     (let objectParams = QueryParams op @ HeaderParams op @ CookieParams op;
          typeName = OperationId op @ ''Params''
      in case try_map (params_type_step h typeName) objectParams of
           Inl e \<Rightarrow> Inl e
         | Inr steps \<Rightarrow>
             (let s1 = set_Properties (map snd steps) Schema_zero;
                  s2 = set_Description (op_Description (od_Spec op)) s1;
                  s3 = set_GoType (h_GenStructFromSchema h s2) s2
              in Inr (List.map_filter fst steps @ [\<lparr>TypeName = typeName, td_Schema = s3\<rparr>])))"

definition GenerateTypeDefsForOperation ::
  "('s, 'x) helpers \<Rightarrow> ('s, 'x) OperationDefinition \<Rightarrow> error + 'x TypeDefinition list" where
  "GenerateTypeDefsForOperation h op =
     (case (if length (Params op) \<noteq> 0 then GenerateParamsTypes h op else Inr []) of
        Inl e \<Rightarrow> Inl e
      | Inr typeDefs \<Rightarrow>
          Inr (typeDefs
               @ concat (map (\<lambda>param. h_GetAdditionalTypeDefs h (pd_Schema param)) (AllParams op))
               @ concat (map (\<lambda>body. h_GetAdditionalTypeDefs h (bd_Schema body)) (Bodies op))))"

text \<open>
  The body of the inner loop of \<open>OperationDefinitions\<close>: the definition of the operation
  \<open>opName\<close> of the path \<open>requestPath\<close>. The operation is a pointer into the document;
  its \<open>Servers\<close> and \<open>OperationID\<close> are assigned, and \<open>od_Spec\<close> holds it so
  updated. The operations of the document are taken to be distinct objects, so that an
  assignment to one is not seen through another.
\<close>

definition operation_step ::
  "('s, 'x) helpers \<Rightarrow> (string list \<Rightarrow> string list) \<Rightarrow> ('s, 'x) T \<Rightarrow> string \<Rightarrow>
     ('s, 'x) PathItem \<Rightarrow> ('s, 'x) ParameterDefinition list \<Rightarrow> string \<Rightarrow>
     error + ('s, 'x) OperationDefinition" where
  "operation_step h \<rho> swagger requestPath pathItem globalParams opName =
     (let pathOps = pi_Operations pathItem in
      case lookup pathOps opName of
        None \<Rightarrow> Inl nil_dereference
      | Some op0 \<Rightarrow>
          (let op1 = (if pi_Servers pathItem \<noteq> None
                      then op0\<lparr>op_Servers := pi_Servers pathItem\<rparr> else op0)
           in case (if op_OperationID op1 = [] then
                      (case generateDefaultOperationID (h_ToCamelCase h) opName requestPath
                              (int (len_map pathOps)) of
                         Inl e \<Rightarrow>
                           Inl (wrap (''error generating default OperationID for '' @ opName
                                      @ ''/'' @ requestPath @ '': '') e)
                       | Inr opId \<Rightarrow> Inr opId)
                    else Inr (h_ToCamelCase h (op_OperationID op1))) of
                Inl e \<Rightarrow> Inl e
              | Inr opId \<Rightarrow>
                  (let op = op1\<lparr>op_OperationID := h_typeNamePrefix h opId @ opId\<rparr> in
                   case DescribeParameters h (op_Parameters op)
                          [op_OperationID op @ ''Params''] of
                     Inl e \<Rightarrow>
                       Inl (wrap (''error describing global parameters for '' @ opName
                                  @ ''/'' @ requestPath @ '': '') e)
                   | Inr localParams \<Rightarrow>
                       (let allParams = globalParams @ localParams in
                        case h_SortParamsByPath h requestPath
                               (FilterParameterDefinitionByType allParams ''path'') of
                          Inl e \<Rightarrow> Inl e
                        | Inr pathParams \<Rightarrow>
                            (case GenerateBodyDefinitions h \<rho> (op_OperationID op)
                                    (op_RequestBody op) of
                               Inl e \<Rightarrow> Inl (wrap ''error generating body definitions: '' e)
                             | Inr (bodyDefinitions, typeDefinitions) \<Rightarrow>
                                 (case GenerateResponseDefinitions h \<rho> (op_OperationID op)
                                         (op_Responses op) of
                                    Inl e \<Rightarrow>
                                      Inl (wrap ''error generating response definitions: '' e)
                                  | Inr responseDefinitions \<Rightarrow>
                                      (let opDef =
                                         \<lparr>OperationId = h_ToCamelCase h (op_OperationID op),
                                          PathParams = pathParams,
                                          HeaderParams =
                                            FilterParameterDefinitionByType allParams ''header'',
                                          QueryParams =
                                            FilterParameterDefinitionByType allParams ''query'',
                                          CookieParams =
                                            FilterParameterDefinitionByType allParams ''cookie'',
                                          TypeDefinitions = typeDefinitions,
                                          SecurityDefinitions =
                                            (case op_Security op of
                                               Some security \<Rightarrow>
                                                 DescribeSecurityDefinition \<rho> security
                                             | None \<Rightarrow>
                                                 DescribeSecurityDefinition \<rho>
                                                   (t_Security swagger)),
                                          BodyRequired =
                                            (case op_RequestBody op of
                                               Some ref \<Rightarrow> rb_Required (rbr_Value ref)
                                             | None \<Rightarrow> False),
                                          Bodies = bodyDefinitions,
                                          Responses = responseDefinitions,
                                          Summary = op_Summary op,
                                          Method = opName,
                                          Path = requestPath,
                                          od_Spec = op\<rparr>
                                       in case GenerateTypeDefsForOperation h opDef of
                                            Inl e \<Rightarrow> Inl e
                                          | Inr typeDefs \<Rightarrow>
                                              Inr (opDef\<lparr>TypeDefinitions :=
                                                     TypeDefinitions opDef @ typeDefs\<rparr>))))))))"

text \<open>The body of the outer loop: the operations of one path.\<close>

definition path_step ::
  "('s, 'x) helpers \<Rightarrow> (string list \<Rightarrow> string list) \<Rightarrow> ('s, 'x) T \<Rightarrow> string \<Rightarrow>
     error + ('s, 'x) OperationDefinition list" where
  "path_step h \<rho> swagger requestPath =
     (case lookup (t_Paths swagger) requestPath of
        None \<Rightarrow> Inl nil_dereference
      | Some pathItem \<Rightarrow>
          (case DescribeParameters h (pi_Parameters pathItem) [] of
             Inl e \<Rightarrow>
               Inl (wrap (''error describing global parameters for '' @ requestPath @ '': '') e)
           | Inr globalParams \<Rightarrow>
               try_map (operation_step h \<rho> swagger requestPath pathItem globalParams)
                 (SortedKeys \<rho> (pi_Operations pathItem))))"

definition OperationDefinitions ::
  "('s, 'x) helpers \<Rightarrow> (string list \<Rightarrow> string list) \<Rightarrow> ('s, 'x) T \<Rightarrow>
     error + ('s, 'x) OperationDefinition list" where
  "OperationDefinitions h \<rho> swagger =
     (case try_map (path_step h \<rho> swagger) (SortedKeys \<rho> (t_Paths swagger)) of
        Inl e \<Rightarrow> Inl e
      | Inr operations \<Rightarrow> Inr (concat operations))"

section \<open>The decision table for default operation identifiers\<close>





section \<open>Notions used to state the properties of bodies and responses\<close>

text \<open>
  A content type of a request body compiles when it is untagged, or when its media type
  has a schema for which \<open>GenerateGoSchema\<close> succeeds and whose reference, if it is one,
  \<open>RefPathToGoType\<close> resolves.
\<close>

definition content_compiles ::
  "('s, 'x) helpers \<Rightarrow> string \<Rightarrow> 's RequestBody \<Rightarrow> string \<Rightarrow> bool" where
  "content_compiles h operationID body contentType =
     (case body_tag (h_IsMediaTypeJson h) contentType of
        None \<Rightarrow> True
      | Some (tag, d) \<Rightarrow>
          (case lookup (rb_Content body) contentType of
             None \<Rightarrow> False
           | Some content \<Rightarrow>
               (case mt_Schema content of
                  None \<Rightarrow> False
                | Some schemaRef \<Rightarrow>
                    (case h_GenerateGoSchema h (Some schemaRef) [operationID @ tag @ ''Body''] of
                       Inl e \<Rightarrow> False
                     | Inr bodySchema \<Rightarrow>
                         (if h_IsGoTypeReference h (sr_Ref schemaRef)
                          then (case h_RefPathToGoType h (sr_Ref schemaRef) of
                                  Inl e \<Rightarrow> False
                                | Inr refType \<Rightarrow> True)
                          else True)))))"


text \<open>
  The named type a response refers to, if any; and the responses of an operation that are
  not \<open>nil\<close>, with their status codes, in the order of the sorted status codes.
\<close>

definition alias_of :: "('s, 'x) helpers \<Rightarrow> 's ResponseRef \<Rightarrow> string option" where
  "alias_of h responseOrRef =
     (if h_IsGoTypeReference h (rr_Ref responseOrRef) then
        (case h_RefPathToGoType h (rr_Ref responseOrRef) of
           Inl e \<Rightarrow> None
         | Inr refType \<Rightarrow> Some refType)
      else None)"

definition present_in ::
  "'s ResponseRef option gomap \<Rightarrow> string list \<Rightarrow> (string \<times> 's ResponseRef) list" where
  "present_in responses statusCodes =
     List.map_filter
       (\<lambda>statusCode. case lookup responses statusCode of
                        Some (Some responseOrRef) \<Rightarrow> Some (statusCode, responseOrRef)
                      | _ \<Rightarrow> None)
       statusCodes"

definition present_responses ::
  "(string list \<Rightarrow> string list) \<Rightarrow> 's ResponseRef option gomap \<Rightarrow> (string \<times> 's ResponseRef) list" where
  "present_responses \<rho> responses = present_in responses (SortedKeys \<rho> responses)"

section \<open>Example inputs\<close>

text \<open>
  Modelled from the spec: \<open>util.IsMediaTypeJson\<close> is not among the sources. The spec
  (sections 4.3 and 8) speaks of the recognized structured-data content types, with
  \<open>application/json\<close> among them and \<open>text/plain\<close> and
  \<open>application/vnd.custom+octet-stream\<close> outside; the model takes \<open>application/json\<close>
  and the types that end in \<open>+json\<close>. It is used at concrete inputs only; the theorems
  take the function as a parameter.
\<close>

definition IsMediaTypeJson :: "string \<Rightarrow> bool" where
  "IsMediaTypeJson mediaType = (mediaType = ''application/json'' \<or> suffix ''+json'' mediaType)"

text \<open>A parameter \<open>limit\<close> with the given location, style, explode and content map.\<close>

definition example_param ::
  "string \<Rightarrow> string \<Rightarrow> bool option \<Rightarrow> unit MediaType gomap \<Rightarrow> (unit, unit) ParameterDefinition" where
  "example_param loc style explode content =
     \<lparr>ParamName = ''limit'', pd_In = loc, pd_Required = False,
      pd_Spec = \<lparr>p_Name = ''limit'', p_In = loc, p_Description = [], p_Style = style,
                 p_Explode = explode, p_Required = False, p_Schema = None,
                 p_Content = content, p_Extensions = []\<rparr>,
      pd_Schema = Schema_zero\<rparr>"

text \<open>
  Stand-ins for the functions that are not among the sources, for the concrete runs
  below: every schema is a \<open>string\<close>, a reference is every non-empty \<open>$ref\<close> and
  names the type of its last path segment.
\<close>

definition example_helpers :: "(unit, unit) helpers" where
  "example_helpers =
     \<lparr>h_ToCamelCase = ToCamelCase,
      h_typeNamePrefix = (\<lambda>name. []),
      h_IsMediaTypeJson = IsMediaTypeJson,
      h_paramToGoType = (\<lambda>param path. Inr (set_GoType ''string'' Schema_zero)),
      h_GenerateGoSchema = (\<lambda>sref path. Inr (set_GoType ''string'' Schema_zero)),
      h_IsGoTypeReference = (\<lambda>ref. ref \<noteq> []),
      h_RefPathToGoType = (\<lambda>ref. Inr (ToCamelCase (last (split_on CHR ''/'' ref)))),
      h_SortParamsByPath = (\<lambda>path params. Inr params),
      h_SchemaNameToTypeName = ToCamelCase,
      h_GenStructFromSchema = (\<lambda>s. ''struct {}''),
      h_GetAdditionalTypeDefs = (\<lambda>s. []),
      h_extGoName = ''x-go-name'',
      h_extParseGoFieldName = (\<lambda>ext. Inl (Err ''not a string''))\<rparr>"

definition example_media :: "unit MediaType" where
  "example_media = \<lparr>mt_Schema = Some \<lparr>sr_Ref = [], sr_Value = ()\<rparr>, mt_Encoding = []\<rparr>"

text \<open>A required request body that declares the given content types, in that order.\<close>

definition example_body :: "string list \<Rightarrow> unit RequestBodyRef" where
  "example_body contentTypes =
     \<lparr>rbr_Ref = [], rbr_Value = \<lparr>rb_Required = True,
                                  rb_Content = map (\<lambda>ct. (ct, example_media)) contentTypes\<rparr>\<rparr>"

text \<open>
  An operation with three responses: \<open>200\<close> and \<open>default\<close> refer to the same named
  response, \<open>404\<close> is declared inline.
\<close>

definition example_response :: "string \<Rightarrow> unit ResponseRef" where
  "example_response ref =
     \<lparr>rr_Ref = ref,
      rr_Value = \<lparr>rs_Description = Some ''a pet'', rs_Headers = [],
                   rs_Content = [(''application/json'', example_media)]\<rparr>\<rparr>"

definition example_responses :: "unit ResponseRef option gomap" where
  "example_responses =
     [(''default'', Some (example_response ''#/components/responses/pet-response'')),
      (''404'', Some (example_response [])),
      (''200'', Some (example_response ''#/components/responses/pet-response''))]"

text \<open>
  A document with two paths. \<open>/pets/{id}\<close> shares the parameters \<open>id\<close> and \<open>limit\<close>
  among its operations; its \<open>GET\<close> has no operation ID and no \<open>security\<close> field and
  declares \<open>limit\<close> again, its \<open>DELETE\<close> has an empty \<open>security\<close> list. \<open>POST /pets\<close>
  has a security requirement of its own.
\<close>

definition example_parameter :: "string \<Rightarrow> string \<Rightarrow> string \<Rightarrow> (unit, unit) ParameterRef" where
  "example_parameter name loc description =
     \<lparr>pr_Ref = [],
      pr_Value = \<lparr>p_Name = name, p_In = loc, p_Description = description, p_Style = [],
                  p_Explode = None, p_Required = False,
                  p_Schema = Some \<lparr>sr_Ref = [], sr_Value = ()\<rparr>, p_Content = [],
                  p_Extensions = []\<rparr>\<rparr>"

definition example_operation ::
  "string \<Rightarrow> (unit, unit) ParameterRef list \<Rightarrow> unit RequestBodyRef option \<Rightarrow>
     SecurityRequirement list option \<Rightarrow> (unit, unit) Operation" where
  "example_operation operationID params body security =
     \<lparr>op_OperationID = operationID, op_Summary = [], op_Description = [],
      op_Parameters = params, op_RequestBody = body, op_Responses = example_responses,
      op_Security = security, op_Servers = None\<rparr>"

definition example_swagger :: "(unit, unit) T" where
  "example_swagger =
     \<lparr>t_Paths =
        [(''/pets/{id}'',
          \<lparr>pi_Parameters = [example_parameter ''id'' ''path'' ''shared'',
                             example_parameter ''limit'' ''query'' ''shared''],
           pi_Servers = None,
           pi_Operations =
             [(''GET'', example_operation [] [example_parameter ''limit'' ''query'' ''local'']
                         None None),
              (''DELETE'', example_operation ''deletePet'' [] None (Some []))]\<rparr>),
         (''/pets'',
          \<lparr>pi_Parameters = [],
           pi_Servers = None,
           pi_Operations =
             [(''POST'', example_operation ''addPet'' []
                          (Some (example_body [''text/plain'', ''application/json'']))
                          (Some [[(''oauth'', [''write''])]]))]\<rparr>)],
      t_Security = [[(''api_key'', [])]]\<rparr>"

lemmas camel_simps = ToCamelCase_def is_upper_def is_lower_def is_digit_def upper_char_def
  upper_letters_def lower_letters_def

lemmas example_simps = example_helpers_def example_media_def example_body_def IsMediaTypeJson_def
  suffix_to_prefix camel_simps

lemmas body_simps = GenerateBodyDefinitions_def body_step_def body_tag_def SortedKeys_def
  range_keys_def keys_def lookup_def len_map_def Schema_zero_def set_GoType_def set_RefType_def
  set_Properties_def Let_def


section \<open>Iteration order\<close>

lemma range_order_single:
  assumes "range_order \<rho>"
  shows "\<rho> [k] = [k]"
proof -
  have "mset (\<rho> [k]) = mset [k]"
    using assms by (simp add: range_order_def)
  then show ?thesis
    by (metis mset_single_iff_right mset.simps)
qed

lemma range_order_id: "range_order (\<lambda>ks. ks)"
  by (simp add: range_order_def)

lemma range_order_rev: "range_order rev"
  by (simp add: range_order_def)

lemma try_map_all2:
  "try_map f xs = Inr ys \<Longrightarrow> list_all2 (\<lambda>x y. f x = Inr y) xs ys"
  by (induction xs arbitrary: ys) (auto split: sum.splits)

lemma SortedKeys_sort:
  assumes "range_order \<rho>"
  shows "SortedKeys \<rho> m = sort (keys m)"
proof -
  have "mset (sort (keys m)) = mset (\<rho> (keys m))"
    using assms by (simp add: range_order_def)
  then show ?thesis
    unfolding SortedKeys_def range_keys_def by (rule properties_for_sort) simp
qed

lemma sorted_SortedKeys: "sorted (SortedKeys \<rho> m)"
  by (simp add: SortedKeys_def)

section \<open>Style and explode\<close>

text \<open>
  C2: when the document omits \<open>style\<close> (the empty string) or \<open>explode\<close> (a \<open>nil\<close>
  pointer), a path or header parameter resolves to \<open>simple\<close> and \<open>false\<close>, a query or
  cookie parameter to \<open>form\<close> and \<open>true\<close>; a style or explode the document gives is
  returned as it is.
\<close>

theorem Style_Explode_defaults:
  "(p_Style (pd_Spec pd) = [] \<and> p_In (pd_Spec pd) \<in> {''path'', ''header''}
      \<longrightarrow> Style pd = Inr ''simple'')
   \<and> (p_Explode (pd_Spec pd) = None \<and> p_In (pd_Spec pd) \<in> {''path'', ''header''}
      \<longrightarrow> Explode pd = Inr False)
   \<and> (p_Style (pd_Spec pd) = [] \<and> p_In (pd_Spec pd) \<in> {''query'', ''cookie''}
      \<longrightarrow> Style pd = Inr ''form'')
   \<and> (p_Explode (pd_Spec pd) = None \<and> p_In (pd_Spec pd) \<in> {''query'', ''cookie''}
      \<longrightarrow> Explode pd = Inr True)
   \<and> (p_Style (pd_Spec pd) \<noteq> [] \<longrightarrow> Style pd = Inr (p_Style (pd_Spec pd)))
   \<and> (p_Explode (pd_Spec pd) = Some b \<longrightarrow> Explode pd = Inr b)"
  by (auto simp: Style_def Explode_def Let_def)

theorem Style_Explode_defaults_witness:
  "Style (example_param ''path'' [] None []) = Inr ''simple''
   \<and> Explode (example_param ''header'' [] None []) = Inr False
   \<and> Style (example_param ''query'' [] None []) = Inr ''form''
   \<and> Explode (example_param ''cookie'' [] None []) = Inr True
   \<and> Style (example_param ''query'' ''spaceDelimited'' None []) = Inr ''spaceDelimited''
   \<and> Explode (example_param ''query'' [] (Some False) []) = Inr False"
  using Style_Explode_defaults [of "example_param ''path'' [] None []"]
    Style_Explode_defaults [of "example_param ''header'' [] None []"]
    Style_Explode_defaults [of "example_param ''query'' [] None []"]
    Style_Explode_defaults [of "example_param ''cookie'' [] None []"]
    Style_Explode_defaults [of "example_param ''query'' ''spaceDelimited'' None []"]
    Style_Explode_defaults [of "example_param ''query'' [] (Some False) []" False]
  by (simp add: example_param_def)

text \<open>
  C8, as stated, fails: a parameter in the location \<open>body\<close> whose document gives a
  style and an explode resolves both without any failure.
\<close>

theorem Style_unknown_location_counterexample:
  "p_In (pd_Spec (example_param ''body'' ''form'' (Some True) [])) = ''body''
   \<and> Style (example_param ''body'' ''form'' (Some True) []) = Inr ''form''
   \<and> Explode (example_param ''body'' ''form'' (Some True) []) = Inr True"
  by (simp add: example_param_def Style_def Explode_def)

text \<open>
  C8, amended: for a parameter whose location is none of path, query, header and cookie,
  \<open>Style\<close> panics with "unknown parameter format" exactly when the document omits the
  style, and \<open>Explode\<close> exactly when it omits explode; a value the document gives is
  returned, whatever the location.
\<close>

theorem Style_Explode_unknown_location:
  assumes "p_In (pd_Spec pd) \<notin> {''path'', ''query'', ''header'', ''cookie''}"
  shows "Style pd = (if p_Style (pd_Spec pd) = [] then Inl (Panic ''unknown parameter format'')
                     else Inr (p_Style (pd_Spec pd)))
         \<and> Explode pd = (case p_Explode (pd_Spec pd) of
                            None \<Rightarrow> Inl (Panic ''unknown parameter format'')
                          | Some b \<Rightarrow> Inr b)"
  using assms by (auto simp: Style_def Explode_def Let_def split: option.splits)

theorem Style_Explode_unknown_location_witness:
  "Style (example_param ''body'' [] None []) = Inl (Panic ''unknown parameter format'')
   \<and> Explode (example_param ''body'' [] None []) = Inl (Panic ''unknown parameter format'')
   \<and> Style (example_param ''body'' ''form'' (Some True) []) = Inr ''form''
   \<and> Explode (example_param ''body'' ''form'' (Some True) []) = Inr True"
  using Style_Explode_unknown_location [of "example_param ''body'' [] None []"]
    Style_Explode_unknown_location [of "example_param ''body'' ''form'' (Some True) []"]
  by (simp add: example_param_def)

section \<open>Pass-through parameters\<close>

text \<open>
  C6, as stated, fails: a parameter with no schema whose only content type is
  \<open>application/json\<close> is not pass-through.
\<close>

theorem IsPassThrough_single_json_counterexample:
  "p_Schema (pd_Spec (example_param ''query'' [] None
       [(''application/json'', \<lparr>mt_Schema = None, mt_Encoding = []\<rparr>)])) = None
   \<and> len_map (p_Content (pd_Spec (example_param ''query'' [] None
       [(''application/json'', \<lparr>mt_Schema = None, mt_Encoding = []\<rparr>)]))) = 1
   \<and> \<not> IsPassThrough (\<lambda>ks. ks) IsMediaTypeJson (example_param ''query'' [] None
       [(''application/json'', \<lparr>mt_Schema = None, mt_Encoding = []\<rparr>)])"
  by (simp add: example_param_def IsPassThrough_def IsJson_def len_map_def keys_def
      range_keys_def IsMediaTypeJson_def)

text \<open>
  C6, amended: a parameter with exactly one declared content type is pass-through
  exactly when that content type is not a JSON media type, and a parameter with more
  than one declared content type is always pass-through; the schema plays no part.
\<close>

theorem IsPassThrough_by_content:
  assumes "range_order \<rho>"
  shows "IsPassThrough \<rho> isJson pd =
           (len_map (p_Content (pd_Spec pd)) > 1
            \<or> (len_map (p_Content (pd_Spec pd)) = 1
                \<and> \<not> isJson (hd (keys (p_Content (pd_Spec pd))))))"
proof (cases "len_map (p_Content (pd_Spec pd)) = 1")
  case True
  then obtain k where k: "keys (p_Content (pd_Spec pd)) = [k]"
    by (auto simp: len_map_def length_Suc_conv)
  with assms show ?thesis
    by (simp add: IsPassThrough_def IsJson_def len_map_def range_keys_def range_order_single)
next
  case False
  then show ?thesis
    by (auto simp: IsPassThrough_def)
qed

theorem IsPassThrough_by_content_witness:
  "IsPassThrough rev IsMediaTypeJson (example_param ''query'' [] None
       [(''text/plain'', \<lparr>mt_Schema = None, mt_Encoding = []\<rparr>)])
   \<and> IsPassThrough rev IsMediaTypeJson (example_param ''query'' [] None
       [(''application/json'', \<lparr>mt_Schema = None, mt_Encoding = []\<rparr>),
        (''text/plain'', \<lparr>mt_Schema = None, mt_Encoding = []\<rparr>)])"
  using IsPassThrough_by_content [OF range_order_rev, of IsMediaTypeJson
      "example_param ''query'' [] None
         [(''text/plain'', \<lparr>mt_Schema = None, mt_Encoding = []\<rparr>)]"]
    IsPassThrough_by_content [OF range_order_rev, of IsMediaTypeJson
      "example_param ''query'' [] None
         [(''application/json'', \<lparr>mt_Schema = None, mt_Encoding = []\<rparr>),
          (''text/plain'', \<lparr>mt_Schema = None, mt_Encoding = []\<rparr>)]"]
  by (simp add: example_param_def len_map_def keys_def IsMediaTypeJson_def suffix_to_prefix)

section \<open>Default operation identifiers\<close>

















section \<open>Request body definitions\<close>

lemma body_step_ContentType:
  "body_step h \<rho> operationID body contentType = Inr (bd, td) \<Longrightarrow> ContentType bd = contentType"
  by (auto simp: body_step_def Let_def split: option.splits sum.splits if_splits prod.splits)

lemma body_steps_ContentType:
  assumes "try_map (body_step h \<rho> operationID body) cts = Inr steps"
  shows "map (\<lambda>s. ContentType (fst s)) steps = cts"
proof -
  have "list_all2 (\<lambda>ct s. body_step h \<rho> operationID body ct = Inr s) cts steps"
    using assms by (rule try_map_all2)
  then have "list_all2 (\<lambda>ct s. ContentType (fst s) = ct) cts steps"
    by (rule list_all2_mono) (metis body_step_ContentType prod.collapse)
  then show ?thesis
    by (induction rule: list_all2_induct) auto
qed

lemma body_definitions_sorted:
  assumes "GenerateBodyDefinitions h \<rho> operationID bodyOrRef = Inr (bds, tds)"
  shows "sorted (map ContentType bds)
         \<and> (range_order \<rho> \<longrightarrow>
              mset (map ContentType bds) =
                (case bodyOrRef of None \<Rightarrow> {#}
                 | Some ref \<Rightarrow> mset (keys (rb_Content (rbr_Value ref)))))"
proof (cases bodyOrRef)
  case None
  with assms show ?thesis by (simp add: GenerateBodyDefinitions_def)
next
  case (Some ref)
  with assms obtain steps where
    steps: "try_map (body_step h \<rho> operationID (rbr_Value ref))
              (SortedKeys \<rho> (rb_Content (rbr_Value ref))) = Inr steps"
    and bds: "bds = sort_key ContentType (map fst steps)"
    by (auto simp: GenerateBodyDefinitions_def Let_def split: sum.splits)
  have cts: "map (\<lambda>s. ContentType (fst s)) steps = SortedKeys \<rho> (rb_Content (rbr_Value ref))"
    using steps by (rule body_steps_ContentType)
  have "mset (map ContentType bds) = mset (map (\<lambda>s. ContentType (fst s)) steps)"
    by (simp add: bds multiset.map_comp comp_def)
  then have m: "mset (map ContentType bds) = mset (SortedKeys \<rho> (rb_Content (rbr_Value ref)))"
    by (simp add: cts)
  have "sorted (map ContentType bds)" by (simp add: bds)
  with m Some show ?thesis by (simp add: SortedKeys_sort)
qed

lemma body_tag_cases:
  "body_tag isJson ct = None \<or> body_tag isJson ct = Some (''JSON'', True) \<and> isJson ct
   \<or> body_tag isJson ct = Some (''Multipart'', False) \<and> \<not> isJson ct
   \<or> body_tag isJson ct = Some (''Formdata'', False) \<and> \<not> isJson ct
   \<or> body_tag isJson ct = Some (''Text'', False) \<and> \<not> isJson ct"
  by (simp add: body_tag_def)

lemma body_tag_None: "body_tag isJson ct = None \<Longrightarrow> \<not> isJson ct"
  by (simp add: body_tag_def split: if_splits)

lemma body_step_untagged:
  assumes "body_step h \<rho> operationID body ct = Inr (bd, td)"
    and "body_tag (h_IsMediaTypeJson h) ct = None"
  shows "bd = \<lparr>bd_Required = rb_Required body, bd_Schema = Schema_zero, NameTag = [],
               ContentType = ct, Default = False, bd_Encoding = Map.empty\<rparr> \<and> td = None"
  using assms by (simp add: body_step_def)

lemma body_step_tagged:
  assumes "body_step h \<rho> operationID body ct = Inr (bd, td)"
    and "body_tag (h_IsMediaTypeJson h) ct = Some (tag, d)"
  shows "NameTag bd = tag \<and> Default bd = d \<and> ContentType bd = ct
         \<and> (\<forall>t. td = Some t \<longrightarrow> TypeName t = operationID @ tag @ ''Body'')"
  using assms
  by (auto simp: body_step_def Let_def split: option.splits sum.splits if_splits prod.splits)

lemma body_step_facts:
  assumes "body_step h \<rho> operationID body ct = Inr (bd, td)"
  shows "ContentType bd = ct
     \<and> NameTag bd = (case body_tag (h_IsMediaTypeJson h) ct of None \<Rightarrow> [] | Some (tag, d) \<Rightarrow> tag)
     \<and> NameTag bd \<in> {''JSON'', ''Multipart'', ''Formdata'', ''Text'', []}
     \<and> Default bd = h_IsMediaTypeJson h ct
     \<and> Default bd = (NameTag bd = ''JSON'')
     \<and> (NameTag bd = [] \<longrightarrow> bd_Schema bd = Schema_zero \<and> td = None)
     \<and> (\<forall>t. td = Some t \<longrightarrow> NameTag bd \<noteq> [] \<and> TypeName t = operationID @ NameTag bd @ ''Body'')"
proof (cases "body_tag (h_IsMediaTypeJson h) ct")
  case None
  with assms body_step_untagged [OF assms None] body_tag_None [OF None] show ?thesis
    by simp
next
  case (Some p)
  obtain tag d where p: "p = (tag, d)" by (cases p)
  from body_step_tagged [OF assms Some [unfolded p]]
    body_tag_cases [of "h_IsMediaTypeJson h" ct] Some p
  show ?thesis by auto
qed

lemma try_map_set:
  assumes "try_map f xs = Inr ys" and "y \<in> set ys"
  shows "\<exists>x \<in> set xs. f x = Inr y"
  using assms by (induction xs arbitrary: ys) (auto split: sum.splits)

lemma GenerateBodyDefinitions_steps:
  assumes "GenerateBodyDefinitions h \<rho> operationID (Some ref) = Inr (bds, tds)"
  shows "\<exists>steps. try_map (body_step h \<rho> operationID (rbr_Value ref))
                    (SortedKeys \<rho> (rb_Content (rbr_Value ref))) = Inr steps
                 \<and> bds = sort_key ContentType (map fst steps)
                 \<and> tds = List.map_filter snd steps"
  using assms by (auto simp: GenerateBodyDefinitions_def Let_def split: sum.splits)

lemma GenerateBodyDefinitions_ContentTypes:
  assumes "GenerateBodyDefinitions h \<rho> operationID (Some ref) = Inr (bds, tds)"
    and "range_order \<rho>"
  shows "map ContentType bds = sort (keys (rb_Content (rbr_Value ref)))"
proof -
  from body_definitions_sorted [OF assms(1)] assms(2)
  have "sorted (map ContentType bds)"
    and "mset (map ContentType bds) = mset (keys (rb_Content (rbr_Value ref)))"
    by simp_all
  then show ?thesis by (metis properties_for_sort)
qed

lemma GenerateBodyDefinitions_member:
  assumes "GenerateBodyDefinitions h \<rho> operationID bodyOrRef = Inr (bds, tds)"
    and "bd \<in> set bds"
  shows "\<exists>ref td. bodyOrRef = Some ref
           \<and> body_step h \<rho> operationID (rbr_Value ref) (ContentType bd) = Inr (bd, td)"
proof (cases bodyOrRef)
  case None
  with assms show ?thesis by (simp add: GenerateBodyDefinitions_def)
next
  case (Some ref)
  from GenerateBodyDefinitions_steps [OF assms(1) [unfolded Some]] obtain steps where
    steps: "try_map (body_step h \<rho> operationID (rbr_Value ref))
              (SortedKeys \<rho> (rb_Content (rbr_Value ref))) = Inr steps"
    and bds: "bds = sort_key ContentType (map fst steps)"
    by blast
  from assms(2) bds obtain td where "(bd, td) \<in> set steps" by auto
  from try_map_set [OF steps this] obtain ct where
    ct: "body_step h \<rho> operationID (rbr_Value ref) ct = Inr (bd, td)" by blast
  with body_step_ContentType [OF ct] Some show ?thesis by auto
qed

lemma GenerateBodyDefinitions_typedef:
  assumes "GenerateBodyDefinitions h \<rho> operationID bodyOrRef = Inr (bds, tds)"
    and "t \<in> set tds"
  shows "\<exists>bd \<in> set bds. NameTag bd \<noteq> [] \<and> TypeName t = operationID @ NameTag bd @ ''Body''"
proof (cases bodyOrRef)
  case None
  with assms show ?thesis by (simp add: GenerateBodyDefinitions_def)
next
  case (Some ref)
  from GenerateBodyDefinitions_steps [OF assms(1) [unfolded Some]] obtain steps where
    steps: "try_map (body_step h \<rho> operationID (rbr_Value ref))
              (SortedKeys \<rho> (rb_Content (rbr_Value ref))) = Inr steps"
    and bds: "bds = sort_key ContentType (map fst steps)"
    and tds: "tds = List.map_filter snd steps"
    by blast
  from assms(2) tds obtain bd where in_steps: "(bd, Some t) \<in> set steps"
    by (auto simp: List.map_filter_def)
  from try_map_set [OF steps this] obtain ct where
    ct: "body_step h \<rho> operationID (rbr_Value ref) ct = Inr (bd, Some t)" by blast
  from in_steps bds have "bd \<in> set bds" by force
  with body_step_facts [OF ct] show ?thesis by auto
qed

lemma try_map_total:
  assumes "\<forall>x \<in> set xs. \<exists>y. f x = Inr y"
  shows "\<exists>ys. try_map f xs = Inr ys"
  using assms by (induction xs) (auto split: sum.splits)

lemma body_step_total:
  assumes "content_compiles h operationID body contentType"
  shows "\<exists>step. body_step h \<rho> operationID body contentType = Inr step"
proof (cases "body_tag (h_IsMediaTypeJson h) contentType")
  case None
  then show ?thesis by (simp add: body_step_def)
next
  case (Some p)
  obtain tag d where p: "p = (tag, d)" by (cases p)
  from assms Some p obtain content schemaRef bodySchema where
    content: "lookup (rb_Content body) contentType = Some content"
    and schema: "mt_Schema content = Some schemaRef"
    and gen: "h_GenerateGoSchema h (Some schemaRef) [operationID @ tag @ ''Body''] = Inr bodySchema"
    and ref: "h_IsGoTypeReference h (sr_Ref schemaRef) \<longrightarrow>
                (\<exists>refType. h_RefPathToGoType h (sr_Ref schemaRef) = Inr refType)"
    by (auto simp: content_compiles_def split: option.splits sum.splits if_splits)
  show ?thesis
  proof (cases "h_IsGoTypeReference h (sr_Ref schemaRef)")
    case True
    with ref obtain refType where "h_RefPathToGoType h (sr_Ref schemaRef) = Inr refType"
      by blast
    with True Some p content schema gen show ?thesis
      by (simp add: body_step_def Let_def split: prod.splits)
  next
    case False
    with Some p content schema gen show ?thesis
      by (simp add: body_step_def Let_def split: prod.splits)
  qed
qed

lemma GenerateBodyDefinitions_total:
  assumes "range_order \<rho>"
    and "\<forall>contentType \<in> set (keys (rb_Content (rbr_Value ref))).
           content_compiles h operationID (rbr_Value ref) contentType"
  shows "\<exists>bds tds. GenerateBodyDefinitions h \<rho> operationID (Some ref) = Inr (bds, tds)"
proof -
  have "set (SortedKeys \<rho> (rb_Content (rbr_Value ref))) = set (keys (rb_Content (rbr_Value ref)))"
    by (simp add: SortedKeys_sort [OF assms(1)])
  with assms(2) have "\<forall>contentType \<in> set (SortedKeys \<rho> (rb_Content (rbr_Value ref))).
      \<exists>step. body_step h \<rho> operationID (rbr_Value ref) contentType = Inr step"
    by (metis body_step_total)
  from try_map_total [OF this] show ?thesis
    by (auto simp: GenerateBodyDefinitions_def Let_def)
qed

lemma filter_length_mset:
  "mset xs = mset ys \<Longrightarrow> length (filter P xs) = length (filter P ys)"
  by (metis mset_filter size_mset)

lemma GenerateBodyDefinitions_defaults:
  assumes gen: "GenerateBodyDefinitions h \<rho> operationID (Some ref) = Inr (bds, tds)"
    and ro: "range_order \<rho>"
  shows "length (filter Default bds) =
         length (filter (h_IsMediaTypeJson h) (keys (rb_Content (rbr_Value ref))))"
proof -
  have d: "\<forall>bd \<in> set bds. Default bd = h_IsMediaTypeJson h (ContentType bd)"
  proof
    fix bd assume bd: "bd \<in> set bds"
    from GenerateBodyDefinitions_member [OF gen bd] obtain ref' td where
      "Some ref = Some ref'"
      and step: "body_step h \<rho> operationID (rbr_Value ref') (ContentType bd) = Inr (bd, td)"
      by blast
    from body_step_facts [OF step] show "Default bd = h_IsMediaTypeJson h (ContentType bd)"
      by blast
  qed
  then have "filter Default bds = filter (\<lambda>bd. h_IsMediaTypeJson h (ContentType bd)) bds"
    by (auto intro: filter_cong)
  then have "length (filter Default bds) =
             length (filter (h_IsMediaTypeJson h) (map ContentType bds))"
    by (simp add: filter_map comp_def)
  also have "\<dots> = length (filter (h_IsMediaTypeJson h) (sort (keys (rb_Content (rbr_Value ref)))))"
    by (simp add: GenerateBodyDefinitions_ContentTypes [OF gen ro])
  also have "\<dots> = length (filter (h_IsMediaTypeJson h) (keys (rb_Content (rbr_Value ref))))"
    by (rule filter_length_mset) simp
  finally show ?thesis .
qed

lemma map_filter_snd_length:
  "length (List.map_filter snd steps) = length (filter (\<lambda>s. snd s \<noteq> None) steps)"
  by (induction steps) (auto simp: List.map_filter_def)

lemma GenerateBodyDefinitions_typedef_count:
  assumes gen: "GenerateBodyDefinitions h \<rho> operationID bodyOrRef = Inr (bds, tds)"
  shows "length tds \<le> length (filter (\<lambda>bd. NameTag bd \<noteq> []) bds)"
proof (cases bodyOrRef)
  case None
  with gen show ?thesis by (simp add: GenerateBodyDefinitions_def)
next
  case (Some ref)
  from GenerateBodyDefinitions_steps [OF gen [unfolded Some]] obtain steps where
    steps: "try_map (body_step h \<rho> operationID (rbr_Value ref))
              (SortedKeys \<rho> (rb_Content (rbr_Value ref))) = Inr steps"
    and bds: "bds = sort_key ContentType (map fst steps)"
    and tds: "tds = List.map_filter snd steps"
    by blast
  have tagged: "snd s \<noteq> None \<longrightarrow> NameTag (fst s) \<noteq> []" if "s \<in> set steps" for s
  proof -
    obtain bd td where s: "s = (bd, td)" by (cases s)
    from try_map_set [OF steps that [unfolded s]] obtain ct where
      "body_step h \<rho> operationID (rbr_Value ref) ct = Inr (bd, td)" by blast
    from body_step_facts [OF this] s show ?thesis by auto
  qed
  have "length tds = length (filter (\<lambda>s. snd s \<noteq> None) steps)"
    by (simp add: tds map_filter_snd_length)
  also have "\<dots> \<le> length (filter (\<lambda>s. NameTag (fst s) \<noteq> []) steps)"
    using tagged
  proof (induction steps)
    case Nil
    then show ?case by simp
  next
    case (Cons s steps)
    then show ?case by (auto simp: le_Suc_eq)
  qed
  also have "\<dots> = length (filter (\<lambda>bd. NameTag bd \<noteq> []) (map fst steps))"
    by (simp add: filter_map comp_def)
  also have "\<dots> = length (filter (\<lambda>bd. NameTag bd \<noteq> []) bds)"
    by (rule filter_length_mset) (simp add: bds)
  finally show ?thesis .
qed

text \<open>
  C4, as stated, fails: a body may have more than one default definition. A body that
  declares \<open>application/json\<close> and \<open>application/vnd.api+json\<close> gives two definitions,
  both tagged \<open>JSON\<close> and both default, and two type definitions of the same name
  \<open>AddPetJSONBody\<close>.
\<close>

theorem GenerateBodyDefinitions_two_defaults_counterexample:
  "GenerateBodyDefinitions example_helpers rev ''AddPet''
     (Some (example_body [''application/json'', ''application/vnd.api+json''])) =
   Inr ([\<lparr>bd_Required = True, bd_Schema = Schema ''string'' ''AddPetJSONBody'' [] False False [],
          NameTag = ''JSON'', ContentType = ''application/json'', Default = True,
          bd_Encoding = Map.empty\<rparr>,
         \<lparr>bd_Required = True, bd_Schema = Schema ''string'' ''AddPetJSONBody'' [] False False [],
          NameTag = ''JSON'', ContentType = ''application/vnd.api+json'', Default = True,
          bd_Encoding = Map.empty\<rparr>],
        [\<lparr>TypeName = ''AddPetJSONBody'', td_Schema = Schema ''string'' [] [] False False []\<rparr>,
         \<lparr>TypeName = ''AddPetJSONBody'', td_Schema = Schema ''string'' [] [] False False []\<rparr>])"
  by (simp add: example_simps body_simps List.map_filter_def)

text \<open>
  C4, amended: every body definition carries the tag of the family of its content type:
  \<open>JSON\<close> for a JSON media type, else \<open>Multipart\<close> for a type that starts with
  \<open>multipart/\<close>, else \<open>Formdata\<close> for \<open>application/x-www-form-urlencoded\<close>, else
  \<open>Text\<close> for \<open>text/plain\<close>, else no tag; an untagged definition has the zero schema,
  and there are no more type definitions than tagged definitions, each named by the
  operation, a tag and \<open>Body\<close>. A definition is default exactly when its content type
  is a JSON media type, that is when its tag is \<open>JSON\<close>; so a body has as many default
  definitions as it declares JSON media types: none, one or several. \<open>Suffix\<close> is empty
  for a default definition and \<open>With\<close>, the tag and \<open>Body\<close> for every other one. A body
  with the only content type \<open>application/vnd.custom+octet-stream\<close> gives one untagged
  definition and no type definition; a body with \<open>application/json\<close> and \<open>text/plain\<close>
  gives the JSON definition, default and without suffix, and the plain-text one with the
  suffix \<open>WithTextBody\<close>. The definitions are returned whenever every content type of
  the body compiles.
\<close>

theorem GenerateBodyDefinitions_family_tags:
  "(GenerateBodyDefinitions h \<rho> operationID bodyOrRef = Inr (bds, tds) \<longrightarrow>
      (\<forall>bd \<in> set bds.
         NameTag bd =
           (if h_IsMediaTypeJson h (ContentType bd) then ''JSON''
            else if prefix ''multipart/'' (ContentType bd) then ''Multipart''
            else if ContentType bd = ''application/x-www-form-urlencoded'' then ''Formdata''
            else if ContentType bd = ''text/plain'' then ''Text''
            else [])
         \<and> Default bd = h_IsMediaTypeJson h (ContentType bd)
         \<and> Default bd = (NameTag bd = ''JSON'')
         \<and> (NameTag bd = [] \<longrightarrow> bd_Schema bd = Schema_zero)
         \<and> Suffix bd = (if NameTag bd = ''JSON'' then [] else ''With'' @ NameTag bd @ ''Body''))
      \<and> (\<forall>t \<in> set tds. \<exists>bd \<in> set bds.
            NameTag bd \<noteq> [] \<and> TypeName t = operationID @ NameTag bd @ ''Body'')
      \<and> length tds \<le> length (filter (\<lambda>bd. NameTag bd \<noteq> []) bds))
   \<and> (range_order \<rho>
        \<and> GenerateBodyDefinitions h \<rho> operationID (Some ref) = Inr (bds, tds) \<longrightarrow>
        map ContentType bds = sort (keys (rb_Content (rbr_Value ref)))
        \<and> length (filter Default bds) =
            length (filter (h_IsMediaTypeJson h) (keys (rb_Content (rbr_Value ref)))))
   \<and> (range_order \<rho> \<and> \<not> h_IsMediaTypeJson h ''application/vnd.custom+octet-stream'' \<longrightarrow>
        GenerateBodyDefinitions h \<rho> operationID
          (Some \<lparr>rbr_Ref = r, rbr_Value = \<lparr>rb_Required = req,
             rb_Content = [(''application/vnd.custom+octet-stream'', c)]\<rparr>\<rparr>) =
        Inr ([\<lparr>bd_Required = req, bd_Schema = Schema_zero, NameTag = [],
               ContentType = ''application/vnd.custom+octet-stream'', Default = False,
               bd_Encoding = Map.empty\<rparr>], []))
   \<and> (range_order \<rho> \<and> h_IsMediaTypeJson h ''application/json''
        \<and> \<not> h_IsMediaTypeJson h ''text/plain''
        \<and> content_compiles h operationID
             \<lparr>rb_Required = req,
              rb_Content = [(''text/plain'', c2), (''application/json'', c1)]\<rparr>
             ''application/json''
        \<and> content_compiles h operationID
             \<lparr>rb_Required = req,
              rb_Content = [(''text/plain'', c2), (''application/json'', c1)]\<rparr>
             ''text/plain'' \<longrightarrow>
        (\<exists>b1 b2 tds2.
           GenerateBodyDefinitions h \<rho> operationID
             (Some \<lparr>rbr_Ref = r, rbr_Value = \<lparr>rb_Required = req,
                rb_Content = [(''text/plain'', c2), (''application/json'', c1)]\<rparr>\<rparr>) =
             Inr ([b1, b2], tds2)
           \<and> ContentType b1 = ''application/json'' \<and> NameTag b1 = ''JSON'' \<and> Default b1
           \<and> Suffix b1 = []
           \<and> ContentType b2 = ''text/plain'' \<and> NameTag b2 = ''Text'' \<and> \<not> Default b2
           \<and> Suffix b2 = ''WithTextBody''))
   \<and> (range_order \<rho>
        \<and> (\<forall>contentType \<in> set (keys (rb_Content (rbr_Value ref))).
              content_compiles h operationID (rbr_Value ref) contentType) \<longrightarrow>
        (\<exists>bds' tds'. GenerateBodyDefinitions h \<rho> operationID (Some ref) = Inr (bds', tds')))"
proof (intro conjI impI ballI)
  fix bd
  assume gen: "GenerateBodyDefinitions h \<rho> operationID bodyOrRef = Inr (bds, tds)"
    and bd: "bd \<in> set bds"
  from GenerateBodyDefinitions_member [OF gen bd] obtain ref' td where
    "bodyOrRef = Some ref'"
    and step: "body_step h \<rho> operationID (rbr_Value ref') (ContentType bd) = Inr (bd, td)"
    by blast
  note facts = body_step_facts [OF step]
  from facts show "NameTag bd =
           (if h_IsMediaTypeJson h (ContentType bd) then ''JSON''
            else if prefix ''multipart/'' (ContentType bd) then ''Multipart''
            else if ContentType bd = ''application/x-www-form-urlencoded'' then ''Formdata''
            else if ContentType bd = ''text/plain'' then ''Text''
            else [])"
    by (simp add: body_tag_def)
  from facts show "Default bd = h_IsMediaTypeJson h (ContentType bd)" by blast
  from facts show "Default bd = (NameTag bd = ''JSON'')" by blast
  from facts show "bd_Schema bd = Schema_zero" if "NameTag bd = []" using that by blast
  from facts have "Default bd = (NameTag bd = ''JSON'')" by blast
  then show "Suffix bd = (if NameTag bd = ''JSON'' then [] else ''With'' @ NameTag bd @ ''Body'')"
    by (simp add: Suffix_def)
next
  fix t
  assume "GenerateBodyDefinitions h \<rho> operationID bodyOrRef = Inr (bds, tds)" "t \<in> set tds"
  then show "\<exists>bd \<in> set bds. NameTag bd \<noteq> [] \<and> TypeName t = operationID @ NameTag bd @ ''Body''"
    by (rule GenerateBodyDefinitions_typedef)
next
  assume "GenerateBodyDefinitions h \<rho> operationID bodyOrRef = Inr (bds, tds)"
  then show "length tds \<le> length (filter (\<lambda>bd. NameTag bd \<noteq> []) bds)"
    by (rule GenerateBodyDefinitions_typedef_count)
next
  assume a: "range_order \<rho>
        \<and> GenerateBodyDefinitions h \<rho> operationID (Some ref) = Inr (bds, tds)"
  then show "map ContentType bds = sort (keys (rb_Content (rbr_Value ref)))"
    using GenerateBodyDefinitions_ContentTypes by blast
  from a show "length (filter Default bds) =
            length (filter (h_IsMediaTypeJson h) (keys (rb_Content (rbr_Value ref))))"
    using GenerateBodyDefinitions_defaults by blast
next
  assume "range_order \<rho> \<and> \<not> h_IsMediaTypeJson h ''application/vnd.custom+octet-stream''"
  then show "GenerateBodyDefinitions h \<rho> operationID
          (Some \<lparr>rbr_Ref = r, rbr_Value = \<lparr>rb_Required = req,
             rb_Content = [(''application/vnd.custom+octet-stream'', c)]\<rparr>\<rparr>) =
        Inr ([\<lparr>bd_Required = req, bd_Schema = Schema_zero, NameTag = [],
               ContentType = ''application/vnd.custom+octet-stream'', Default = False,
               bd_Encoding = Map.empty\<rparr>], [])"
    by (simp add: GenerateBodyDefinitions_def SortedKeys_sort keys_def body_step_def body_tag_def)
next
  let ?body = "\<lparr>rb_Required = req,
                rb_Content = [(''text/plain'', c2), (''application/json'', c1)]\<rparr>"
  let ?ref = "\<lparr>rbr_Ref = r, rbr_Value = ?body\<rparr>"
  assume a: "range_order \<rho> \<and> h_IsMediaTypeJson h ''application/json''
        \<and> \<not> h_IsMediaTypeJson h ''text/plain''
        \<and> content_compiles h operationID ?body ''application/json''
        \<and> content_compiles h operationID ?body ''text/plain''"
  then have ro: "range_order \<rho>" by simp
  from a have "\<forall>contentType \<in> set (keys (rb_Content (rbr_Value ?ref))).
                 content_compiles h operationID (rbr_Value ?ref) contentType"
    by (simp add: keys_def)
  from GenerateBodyDefinitions_total [OF ro this] obtain bds2 tds2 where
    gen: "GenerateBodyDefinitions h \<rho> operationID (Some ?ref) = Inr (bds2, tds2)"
    by blast
  from GenerateBodyDefinitions_ContentTypes [OF gen ro]
  have "map ContentType bds2 = [''application/json'', ''text/plain'']"
    by (simp add: keys_def)
  then obtain b1 b2 where b: "bds2 = [b1, b2]" "ContentType b1 = ''application/json''"
    "ContentType b2 = ''text/plain''"
    by (auto simp: map_eq_Cons_conv)
  from GenerateBodyDefinitions_member [OF gen, of b1] b obtain td1 where
    s1: "body_step h \<rho> operationID (rbr_Value ?ref) ''application/json'' = Inr (b1, td1)"
    by auto
  from GenerateBodyDefinitions_member [OF gen, of b2] b obtain td2 where
    s2: "body_step h \<rho> operationID (rbr_Value ?ref) ''text/plain'' = Inr (b2, td2)"
    by auto
  from body_step_facts [OF s1] a have "NameTag b1 = ''JSON'' \<and> Default b1 \<and> Suffix b1 = []"
    by (simp add: Suffix_def body_tag_def)
  moreover from body_step_facts [OF s2] a
  have "NameTag b2 = ''Text'' \<and> \<not> Default b2 \<and> Suffix b2 = ''WithTextBody''"
    by (simp add: Suffix_def body_tag_def)
  ultimately show "\<exists>b1 b2 tds2.
           GenerateBodyDefinitions h \<rho> operationID (Some ?ref) = Inr ([b1, b2], tds2)
           \<and> ContentType b1 = ''application/json'' \<and> NameTag b1 = ''JSON'' \<and> Default b1
           \<and> Suffix b1 = []
           \<and> ContentType b2 = ''text/plain'' \<and> NameTag b2 = ''Text'' \<and> \<not> Default b2
           \<and> Suffix b2 = ''WithTextBody''"
    using b gen by simp
next
  assume "range_order \<rho>
        \<and> (\<forall>contentType \<in> set (keys (rb_Content (rbr_Value ref))).
              content_compiles h operationID (rbr_Value ref) contentType)"
  then show "\<exists>bds' tds'. GenerateBodyDefinitions h \<rho> operationID (Some ref) = Inr (bds', tds')"
    using GenerateBodyDefinitions_total by blast
qed

lemma example_body_run:
  "\<exists>bds tds. GenerateBodyDefinitions example_helpers rev ''AddPet''
       (Some (example_body [''text/plain'', ''application/json''])) = Inr (bds, tds)
     \<and> map ContentType bds = [''application/json'', ''text/plain'']
     \<and> map TypeName tds = [''AddPetJSONBody'', ''AddPetTextBody'']"
  by (simp add: example_simps body_simps)

lemma example_body_families_run:
  "\<exists>bds tds. GenerateBodyDefinitions example_helpers rev ''AddPet''
       (Some (example_body [''multipart/form-data'', ''application/vnd.api+json'',
          ''application/x-www-form-urlencoded'', ''image/png'', ''application/json'',
          ''text/plain''])) = Inr (bds, tds)
     \<and> map ContentType bds = [''application/json'', ''application/vnd.api+json'',
          ''application/x-www-form-urlencoded'', ''image/png'', ''multipart/form-data'',
          ''text/plain'']
     \<and> map TypeName tds = [''AddPetJSONBody'', ''AddPetJSONBody'', ''AddPetFormdataBody'',
          ''AddPetMultipartBody'', ''AddPetTextBody'']"
  by (simp add: example_simps body_simps List.map_filter_def)

theorem GenerateBodyDefinitions_family_tags_witness:
  "(\<exists>bds tds. GenerateBodyDefinitions example_helpers rev ''AddPet''
       (Some (example_body [''text/plain'', ''application/json''])) = Inr (bds, tds)
     \<and> map NameTag bds = [''JSON'', ''Text'']
     \<and> map Default bds = [True, False]
     \<and> map Suffix bds = [[], ''WithTextBody''])
   \<and> GenerateBodyDefinitions example_helpers rev ''AddPet''
       (Some (example_body [''application/vnd.custom+octet-stream''])) =
     Inr ([\<lparr>bd_Required = True, bd_Schema = Schema_zero, NameTag = [],
            ContentType = ''application/vnd.custom+octet-stream'', Default = False,
            bd_Encoding = Map.empty\<rparr>], [])
   \<and> (\<exists>bds tds. GenerateBodyDefinitions example_helpers rev ''AddPet''
       (Some (example_body [''multipart/form-data'', ''application/vnd.api+json'',
          ''application/x-www-form-urlencoded'', ''image/png'', ''application/json'',
          ''text/plain''])) = Inr (bds, tds)
     \<and> map NameTag bds = [''JSON'', ''JSON'', ''Formdata'', [], ''Multipart'', ''Text'']
     \<and> map Default bds = [True, True, False, False, False, False]
     \<and> length (filter Default bds) = 2)"
proof -
  from example_body_run obtain bds tds where
    run: "GenerateBodyDefinitions example_helpers rev ''AddPet''
       (Some \<lparr>rbr_Ref = [], rbr_Value = \<lparr>rb_Required = True,
          rb_Content = [(''text/plain'', example_media),
                        (''application/json'', example_media)]\<rparr>\<rparr>) = Inr (bds, tds)"
    by (auto simp: example_body_def)
  have js: "h_IsMediaTypeJson example_helpers ''application/json''"
    "\<not> h_IsMediaTypeJson example_helpers ''text/plain''"
    "\<not> h_IsMediaTypeJson example_helpers ''application/vnd.custom+octet-stream''"
    by (simp_all add: example_helpers_def IsMediaTypeJson_def suffix_to_prefix)
  have compiles: "content_compiles example_helpers ''AddPet''
       \<lparr>rb_Required = True, rb_Content = [(''text/plain'', example_media),
                                            (''application/json'', example_media)]\<rparr>
       ''application/json''"
    "content_compiles example_helpers ''AddPet''
       \<lparr>rb_Required = True, rb_Content = [(''text/plain'', example_media),
                                            (''application/json'', example_media)]\<rparr>
       ''text/plain''"
    by (simp_all add: content_compiles_def body_tag_def lookup_def example_simps
        Schema_zero_def set_GoType_def)
  note inst = GenerateBodyDefinitions_family_tags [of example_helpers rev "''AddPet''"
      "Some (example_body [''text/plain'', ''application/json''])" bds tds
      "example_body [''text/plain'', ''application/json'']" "[]" True
      example_media example_media example_media]
  from inst run js compiles range_order_rev obtain b1 b2 where
    "bds = [b1, b2]" "NameTag b1 = ''JSON''" "Default b1" "Suffix b1 = []"
    "NameTag b2 = ''Text''" "\<not> Default b2" "Suffix b2 = ''WithTextBody''"
    by auto
  with run have first: "\<exists>bds tds. GenerateBodyDefinitions example_helpers rev ''AddPet''
       (Some (example_body [''text/plain'', ''application/json''])) = Inr (bds, tds)
     \<and> map NameTag bds = [''JSON'', ''Text'']
     \<and> map Default bds = [True, False]
     \<and> map Suffix bds = [[], ''WithTextBody'']"
    by (auto simp: example_body_def)
  from inst js range_order_rev
  have second: "GenerateBodyDefinitions example_helpers rev ''AddPet''
       (Some (example_body [''application/vnd.custom+octet-stream''])) =
     Inr ([\<lparr>bd_Required = True, bd_Schema = Schema_zero, NameTag = [],
            ContentType = ''application/vnd.custom+octet-stream'', Default = False,
            bd_Encoding = Map.empty\<rparr>], [])"
    by (simp add: example_body_def)
  let ?cts = "[''multipart/form-data'', ''application/vnd.api+json'',
          ''application/x-www-form-urlencoded'', ''image/png'', ''application/json'',
          ''text/plain'']"
  from example_body_families_run obtain bds2 tds2 where
    run2: "GenerateBodyDefinitions example_helpers rev ''AddPet''
             (Some (example_body ?cts)) = Inr (bds2, tds2)"
    and cts2: "map ContentType bds2 = [''application/json'', ''application/vnd.api+json'',
          ''application/x-www-form-urlencoded'', ''image/png'', ''multipart/form-data'',
          ''text/plain'']"
    by auto
  note inst2 = GenerateBodyDefinitions_family_tags [of example_helpers rev "''AddPet''"
      "Some (example_body ?cts)" bds2 tds2 "example_body ?cts" "[]" True
      example_media example_media example_media]
  note each = inst2 [THEN conjunct1, THEN mp, OF run2, THEN conjunct1]
  have "map NameTag bds2 =
      map (\<lambda>ct. if IsMediaTypeJson ct then ''JSON''
            else if prefix ''multipart/'' ct then ''Multipart''
            else if ct = ''application/x-www-form-urlencoded'' then ''Formdata''
            else if ct = ''text/plain'' then ''Text''
            else []) (map ContentType bds2)"
    using each by (simp add: example_helpers_def)
  then have tags: "map NameTag bds2 =
      [''JSON'', ''JSON'', ''Formdata'', [], ''Multipart'', ''Text'']"
    unfolding cts2 by (simp add: IsMediaTypeJson_def suffix_to_prefix)
  have "map Default bds2 = map IsMediaTypeJson (map ContentType bds2)"
    using each by (simp add: example_helpers_def)
  then have defaults: "map Default bds2 = [True, True, False, False, False, False]"
    unfolding cts2 by (simp add: IsMediaTypeJson_def suffix_to_prefix)
  from inst2 [THEN conjunct2, THEN conjunct1, THEN mp, OF conjI, OF range_order_rev run2]
  have count: "length (filter Default bds2) = 2"
    by (simp add: example_body_def keys_def example_helpers_def IsMediaTypeJson_def
        suffix_to_prefix)
  from run2 tags defaults count
  have third: "\<exists>bds tds. GenerateBodyDefinitions example_helpers rev ''AddPet''
       (Some (example_body ?cts)) = Inr (bds, tds)
     \<and> map NameTag bds = [''JSON'', ''JSON'', ''Formdata'', [], ''Multipart'', ''Text'']
     \<and> map Default bds = [True, True, False, False, False, False]
     \<and> length (filter Default bds) = 2"
    by (intro exI conjI)
  from first second third show ?thesis by (intro conjI)
qed

text \<open>
  C10: the body definitions are returned in ascending order of their content types,
  one for every content type of the body, whatever the order of the document.
\<close>

theorem GenerateBodyDefinitions_sorted:
  assumes "GenerateBodyDefinitions h \<rho> operationID bodyOrRef = Inr (bds, tds)"
  shows "sorted (map ContentType bds)
         \<and> (range_order \<rho> \<longrightarrow>
              mset (map ContentType bds) =
                (case bodyOrRef of None \<Rightarrow> {#}
                 | Some ref \<Rightarrow> mset (keys (rb_Content (rbr_Value ref)))))"
  using assms by (rule body_definitions_sorted)

theorem GenerateBodyDefinitions_sorted_witness:
  "\<exists>bds tds. GenerateBodyDefinitions example_helpers rev ''AddPet''
       (Some (example_body [''text/plain'', ''application/json''])) = Inr (bds, tds)
     \<and> map ContentType bds = [''application/json'', ''text/plain'']
     \<and> sorted (map ContentType bds)
     \<and> mset (map ContentType bds) = {#''text/plain'', ''application/json''#}"
proof -
  from example_body_run obtain bds tds where
    run: "GenerateBodyDefinitions example_helpers rev ''AddPet''
       (Some (example_body [''text/plain'', ''application/json''])) = Inr (bds, tds)"
    and cts: "map ContentType bds = [''application/json'', ''text/plain'']"
    by auto
  from GenerateBodyDefinitions_sorted [OF run] range_order_rev
  have "sorted (map ContentType bds)
        \<and> mset (map ContentType bds) = {#''text/plain'', ''application/json''#}"
    by (simp add: example_body_def keys_def)
  with run cts show ?thesis by auto
qed

section \<open>Response definitions\<close>

lemma response_step_facts:
  assumes "response_step h \<rho> operationID refSet statusCode responseOrRef = Inr (rd, refSet')"
  shows "StatusCode rd = statusCode
         \<and> Ref rd = (case alias_of h responseOrRef of
                       None \<Rightarrow> []
                     | Some t \<Rightarrow> if t \<in> refSet then [] else t)
         \<and> refSet' = (case alias_of h responseOrRef of
                        None \<Rightarrow> refSet
                      | Some t \<Rightarrow> insert t refSet)"
  using assms
  by (auto simp: response_step_def alias_of_def Let_def split: sum.splits if_splits)

lemma response_step_refSet:
  assumes "response_step h \<rho> operationID refSet statusCode responseOrRef = Inr x"
  shows "\<exists>y. response_step h \<rho> operationID refSet' statusCode responseOrRef = Inr y"
  using assms
  by (auto simp: response_step_def Let_def split: sum.splits if_splits)

lemma present_in_Cons:
  "present_in responses (statusCode # rest) =
     (case lookup responses statusCode of
        Some (Some responseOrRef) \<Rightarrow> (statusCode, responseOrRef) # present_in responses rest
      | _ \<Rightarrow> present_in responses rest)"
  by (simp add: present_in_def split: option.splits)

lemma present_in_Nil: "present_in responses [] = []"
  by (simp add: present_in_def)

lemma responses_loop_refs:
  assumes "responses_loop h \<rho> operationID responses refSet statusCodes = Inr rds"
  shows "map StatusCode rds = map fst (present_in responses statusCodes)
         \<and> (\<forall>i < length rds.
               Ref (rds ! i) =
                 (case alias_of h (snd (present_in responses statusCodes ! i)) of
                    None \<Rightarrow> []
                  | Some t \<Rightarrow>
                      if t \<in> refSet
                         \<or> Some t \<in> set (map (\<lambda>p. alias_of h (snd p))
                                           (take i (present_in responses statusCodes)))
                      then [] else t))"
  using assms
proof (induction statusCodes arbitrary: refSet rds)
  case Nil
  then show ?case by (simp add: present_in_Nil)
next
  case (Cons statusCode rest)
  show ?case
  proof (cases "lookup responses statusCode")
    case None
    then have pres: "present_in responses (statusCode # rest) = present_in responses rest"
      by (simp add: present_in_Cons)
    from None Cons.prems
    have "responses_loop h \<rho> operationID responses refSet rest = Inr rds"
      by simp
    from Cons.IH [OF this] show ?thesis
      unfolding pres .
  next
    case (Some v)
    show ?thesis
    proof (cases v)
      case None
      with Some have pres: "present_in responses (statusCode # rest) = present_in responses rest"
        by (simp add: present_in_Cons)
      from None Some Cons.prems
      have "responses_loop h \<rho> operationID responses refSet rest = Inr rds"
        by simp
      from Cons.IH [OF this] show ?thesis
        unfolding pres .
    next
      case (Some responseOrRef)
      with \<open>lookup responses statusCode = Some v\<close> Cons.prems obtain rd refSet' rds' where
        step: "response_step h \<rho> operationID refSet statusCode responseOrRef = Inr (rd, refSet')"
        and rest: "responses_loop h \<rho> operationID responses refSet' rest = Inr rds'"
        and rds: "rds = rd # rds'"
        by (auto split: sum.splits)
      note facts = response_step_facts [OF step]
      note IH = Cons.IH [OF rest]
      have pres: "present_in responses (statusCode # rest) =
                    (statusCode, responseOrRef) # present_in responses rest"
        using Some \<open>lookup responses statusCode = Some v\<close> by (simp add: present_in_Cons)
      have codes: "map StatusCode rds = map fst (present_in responses (statusCode # rest))"
        using facts IH by (simp add: rds pres)
      have "Ref (rds ! i) =
                 (case alias_of h (snd (present_in responses (statusCode # rest) ! i)) of
                    None \<Rightarrow> []
                  | Some t \<Rightarrow>
                      if t \<in> refSet
                         \<or> Some t \<in> set (map (\<lambda>p. alias_of h (snd p))
                                           (take i (present_in responses (statusCode # rest))))
                      then [] else t)" if "i < length rds" for i
      proof (cases i)
        case 0
        with facts show ?thesis by (auto simp: rds pres split: option.splits)
      next
        case (Suc i')
        with that have "i' < length rds'" by (simp add: rds)
        with IH have "Ref (rds' ! i') =
                 (case alias_of h (snd (present_in responses rest ! i')) of
                    None \<Rightarrow> []
                  | Some t \<Rightarrow>
                      if t \<in> refSet'
                         \<or> Some t \<in> set (map (\<lambda>p. alias_of h (snd p))
                                           (take i' (present_in responses rest)))
                      then [] else t)" by blast
        with facts show ?thesis
          by (auto simp: rds pres Suc split: option.splits)
      qed
      with codes show ?thesis by blast
    qed
  qed
qed


lemma responses_loop_total:
  assumes "\<forall>p \<in> set (present_in responses statusCodes).
             \<exists>x. response_step h \<rho> operationID {} (fst p) (snd p) = Inr x"
  shows "\<exists>rds. responses_loop h \<rho> operationID responses refSet statusCodes = Inr rds"
  using assms
proof (induction statusCodes arbitrary: refSet)
  case Nil
  then show ?case by simp
next
  case (Cons statusCode rest)
  show ?case
  proof (cases "lookup responses statusCode")
    case None
    with Cons show ?thesis by (simp add: present_in_Cons)
  next
    case (Some v)
    show ?thesis
    proof (cases v)
      case None
      with Some Cons show ?thesis by (simp add: present_in_Cons)
    next
      case (Some responseOrRef)
      with \<open>lookup responses statusCode = Some v\<close>
      have pres: "present_in responses (statusCode # rest) =
                    (statusCode, responseOrRef) # present_in responses rest"
        by (simp add: present_in_Cons)
      with Cons.prems obtain x where
        "response_step h \<rho> operationID {} statusCode responseOrRef = Inr x"
        by auto
      from response_step_refSet [OF this] obtain rd refSet' where
        step: "response_step h \<rho> operationID refSet statusCode responseOrRef = Inr (rd, refSet')"
        by fastforce
      from Cons.prems pres
      have "\<forall>p \<in> set (present_in responses rest).
              \<exists>x. response_step h \<rho> operationID {} (fst p) (snd p) = Inr x"
        by simp
      from Cons.IH [OF this] obtain rds' where
        "responses_loop h \<rho> operationID responses refSet' rest = Inr rds'"
        by blast
      with step Some \<open>lookup responses statusCode = Some v\<close> show ?thesis
        by simp
    qed
  qed
qed

lemma present_in_codes:
  "map fst (present_in responses statusCodes) =
     filter (\<lambda>c. \<exists>r. lookup responses c = Some (Some r)) statusCodes"
  by (induction statusCodes) (auto simp: present_in_Cons present_in_Nil split: option.splits)

lemma first_alias_unique:
  assumes len: "length refs = length as"
    and first: "\<forall>i < length refs. refs ! i =
                  (case as ! i of
                     None \<Rightarrow> []
                   | Some t \<Rightarrow> if Some t \<in> set (take i as) then [] else t)"
    and i: "i < length refs" and j: "j < length refs" and ij: "i < j"
    and ne: "refs ! i \<noteq> [] \<or> refs ! j \<noteq> []"
  shows "refs ! j \<noteq> refs ! i"
proof
  assume eq: "refs ! j = refs ! i"
  with ne have nei: "refs ! i \<noteq> []" and nej: "refs ! j \<noteq> []" by auto
  from first i nei have ai: "as ! i = Some (refs ! i)"
    by (auto split: option.splits if_splits)
  from first j nej have aj: "as ! j = Some (refs ! j)" "Some (refs ! j) \<notin> set (take j as)"
    by (auto split: option.splits if_splits)
  from ij j len have "as ! i \<in> set (take j as)"
    by (auto simp: in_set_conv_nth intro!: exI [of _ i])
  with ai aj eq show False by simp
qed

text \<open>
  C3: the response definitions follow the sorted status codes of the responses that are
  not \<open>nil\<close>. A definition carries the alias of the type its response refers to exactly
  when no earlier response refers to the same type, and has an empty \<open>Ref\<close> otherwise;
  so no two definitions carry the same alias. A repeated reference is never an error:
  the run succeeds whenever every response compiles on its own.
\<close>

theorem GenerateResponseDefinitions_alias_once:
  "(GenerateResponseDefinitions h \<rho> operationID responses = Inr rds \<longrightarrow>
      map StatusCode rds = map fst (present_responses \<rho> responses)
      \<and> sorted (map StatusCode rds)
      \<and> (\<forall>i < length rds.
            Ref (rds ! i) =
              (case alias_of h (snd (present_responses \<rho> responses ! i)) of
                 None \<Rightarrow> []
               | Some t \<Rightarrow>
                   if Some t \<in> set (map (\<lambda>p. alias_of h (snd p))
                                     (take i (present_responses \<rho> responses)))
                   then [] else t))
      \<and> (\<forall>i < length rds. \<forall>j < length rds.
            i \<noteq> j \<and> Ref (rds ! i) \<noteq> [] \<longrightarrow> Ref (rds ! j) \<noteq> Ref (rds ! i)))
   \<and> ((\<forall>p \<in> set (present_responses \<rho> responses).
          \<exists>x. response_step h \<rho> operationID {} (fst p) (snd p) = Inr x) \<longrightarrow>
       (\<exists>rds'. GenerateResponseDefinitions h \<rho> operationID responses = Inr rds'))"
proof (intro conjI impI)
  assume "\<forall>p \<in> set (present_responses \<rho> responses).
          \<exists>x. response_step h \<rho> operationID {} (fst p) (snd p) = Inr x"
  then show "\<exists>rds'. GenerateResponseDefinitions h \<rho> operationID responses = Inr rds'"
    unfolding GenerateResponseDefinitions_def present_responses_def
    by (rule responses_loop_total)
next
  assume gen: "GenerateResponseDefinitions h \<rho> operationID responses = Inr rds"
  let ?prs = "present_responses \<rho> responses"
  let ?as = "map (\<lambda>p. alias_of h (snd p)) ?prs"
  from gen have loop: "responses_loop h \<rho> operationID responses {} (SortedKeys \<rho> responses) = Inr rds"
    by (simp add: GenerateResponseDefinitions_def)
  from responses_loop_refs [OF loop]
  show codes: "map StatusCode rds = map fst ?prs"
    by (simp add: present_responses_def)
  then have len: "length rds = length ?prs"
    by (metis length_map)
  from codes show "sorted (map StatusCode rds)"
    by (simp add: present_responses_def present_in_codes sorted_SortedKeys sorted_wrt_filter)
  from responses_loop_refs [OF loop]
  show refs: "\<forall>i < length rds.
            Ref (rds ! i) =
              (case alias_of h (snd (?prs ! i)) of
                 None \<Rightarrow> []
               | Some t \<Rightarrow>
                   if Some t \<in> set (map (\<lambda>p. alias_of h (snd p)) (take i ?prs))
                   then [] else t)"
    by (simp add: present_responses_def cong: option.case_cong)
  have first: "\<forall>i < length (map Ref rds). map Ref rds ! i =
                  (case ?as ! i of
                     None \<Rightarrow> []
                   | Some t \<Rightarrow> if Some t \<in> set (take i ?as) then [] else t)"
    using refs len by (simp add: take_map cong: option.case_cong)
  have len': "length (map Ref rds) = length ?as" using len by simp
  show "\<forall>i < length rds. \<forall>j < length rds.
            i \<noteq> j \<and> Ref (rds ! i) \<noteq> [] \<longrightarrow> Ref (rds ! j) \<noteq> Ref (rds ! i)"
  proof (intro allI impI)
    fix i j
    assume i: "i < length rds" and j: "j < length rds"
      and a: "i \<noteq> j \<and> Ref (rds ! i) \<noteq> []"
    show "Ref (rds ! j) \<noteq> Ref (rds ! i)"
    proof (cases "i < j")
      case True
      from first_alias_unique [OF len' first, of i j] i j True a show ?thesis by simp
    next
      case False
      with a have "j < i" by simp
      from first_alias_unique [OF len' first, of j i] i j this a show ?thesis by force
    qed
  qed
qed


lemmas response_simps = GenerateResponseDefinitions_def response_step_def
  response_content_step_def response_header_step_def response_tag_def SortedKeys_def
  range_keys_def keys_def lookup_def Schema_zero_def set_GoType_def Let_def
  example_response_def example_responses_def

lemma example_responses_run:
  "\<exists>rds. GenerateResponseDefinitions example_helpers rev ''GetPet'' example_responses = Inr rds
     \<and> map Ref rds = [''PetResponse'', [], []]"
  by (simp add: example_simps response_simps)

lemma example_responses_present:
  "present_responses rev example_responses =
     [(''200'', example_response ''#/components/responses/pet-response''),
      (''404'', example_response []),
      (''default'', example_response ''#/components/responses/pet-response'')]"
  by (simp add: present_responses_def present_in_def response_simps)

theorem GenerateResponseDefinitions_alias_once_witness:
  "\<exists>rds. GenerateResponseDefinitions example_helpers rev ''GetPet'' example_responses = Inr rds
     \<and> map StatusCode rds = [''200'', ''404'', ''default'']
     \<and> map Ref rds = [''PetResponse'', [], []]
     \<and> sorted (map StatusCode rds)
     \<and> Ref (rds ! 2) \<noteq> Ref (rds ! 0)"
proof -
  from example_responses_run obtain rds where
    run: "GenerateResponseDefinitions example_helpers rev ''GetPet'' example_responses = Inr rds"
    and refs: "map Ref rds = [''PetResponse'', [], []]"
    by auto
  note inst = GenerateResponseDefinitions_alias_once
    [of example_helpers rev "''GetPet''" example_responses rds]
  have steps: "\<forall>p \<in> set (present_responses rev example_responses).
          \<exists>x. response_step example_helpers rev ''GetPet'' {} (fst p) (snd p) = Inr x"
    unfolding example_responses_present by (simp add: example_simps response_simps)
  from inst steps have "\<exists>rds'. GenerateResponseDefinitions example_helpers rev ''GetPet''
      example_responses = Inr rds'"
    by simp
  note facts = inst [THEN conjunct1, THEN mp, OF run]
  note sorted = facts [THEN conjunct2, THEN conjunct1]
  note uniq = facts [THEN conjunct2, THEN conjunct2, THEN conjunct2]
  from facts [THEN conjunct1]
  have codes: "map StatusCode rds = [''200'', ''404'', ''default'']"
    by (simp add: example_responses_present)
  from refs have len: "length rds = 3" and r0: "Ref (rds ! 0) = ''PetResponse''"
    by (auto simp: map_eq_Cons_conv)
  from uniq [rule_format, of 0 2] len r0 have "Ref (rds ! 2) \<noteq> Ref (rds ! 0)"
    by simp
  with run codes refs sorted show ?thesis by auto
qed

section \<open>Operation definitions\<close>

lemma operation_step_facts:
  assumes "operation_step h \<rho> swagger requestPath pathItem globalParams opName = Inr od"
  shows "\<exists>op localParams.
           lookup (pi_Operations pathItem) opName = Some op
           \<and> Method od = opName \<and> Path od = requestPath
           \<and> op_Parameters (od_Spec od) = op_Parameters op
           \<and> op_Security (od_Spec od) = op_Security op
           \<and> DescribeParameters h (op_Parameters op) [op_OperationID (od_Spec od) @ ''Params'']
               = Inr localParams
           \<and> QueryParams od = FilterParameterDefinitionByType (globalParams @ localParams) ''query''
           \<and> HeaderParams od = FilterParameterDefinitionByType (globalParams @ localParams) ''header''
           \<and> CookieParams od = FilterParameterDefinitionByType (globalParams @ localParams) ''cookie''
           \<and> h_SortParamsByPath h requestPath
                (FilterParameterDefinitionByType (globalParams @ localParams) ''path'')
               = Inr (PathParams od)
           \<and> SecurityDefinitions od =
               (case op_Security op of
                  Some security \<Rightarrow> DescribeSecurityDefinition \<rho> security
                | None \<Rightarrow> DescribeSecurityDefinition \<rho> (t_Security swagger))"
  using assms
  by (auto simp: operation_step_def Let_def split: option.splits sum.splits if_splits prod.splits)


lemma OperationDefinitions_member:
  assumes "OperationDefinitions h \<rho> swagger = Inr ods" and "od \<in> set ods"
  shows "\<exists>requestPath pathItem globalParams opName.
           lookup (t_Paths swagger) requestPath = Some pathItem
           \<and> DescribeParameters h (pi_Parameters pathItem) [] = Inr globalParams
           \<and> operation_step h \<rho> swagger requestPath pathItem globalParams opName = Inr od"
proof -
  from assms(1) obtain operations where
    paths: "try_map (path_step h \<rho> swagger) (SortedKeys \<rho> (t_Paths swagger)) = Inr operations"
    and ods: "ods = concat operations"
    by (auto simp: OperationDefinitions_def split: sum.splits)
  from assms(2) ods obtain pathOps where "pathOps \<in> set operations" and od: "od \<in> set pathOps"
    by auto
  from try_map_set [OF paths this(1)] obtain requestPath where
    step: "path_step h \<rho> swagger requestPath = Inr pathOps"
    by blast
  then obtain pathItem globalParams where
    item: "lookup (t_Paths swagger) requestPath = Some pathItem"
    and glob: "DescribeParameters h (pi_Parameters pathItem) [] = Inr globalParams"
    and ops: "try_map (operation_step h \<rho> swagger requestPath pathItem globalParams)
                (SortedKeys \<rho> (pi_Operations pathItem)) = Inr pathOps"
    by (auto simp: path_step_def split: option.splits sum.splits)
  from try_map_set [OF ops od] item glob show ?thesis
    by blast
qed

lemma DescribeParameters_names:
  assumes "DescribeParameters h params path = Inr pds"
  shows "map ParamName pds = map (\<lambda>p. p_Name (pr_Value p)) params"
proof -
  have "list_all2 (\<lambda>p pd. describeParameter h path p = Inr pd) params pds"
    using assms unfolding DescribeParameters_def by (rule try_map_all2)
  then have "list_all2 (\<lambda>p pd. ParamName pd = p_Name (pr_Value p)) params pds"
    by (rule list_all2_mono)
      (auto simp: describeParameter_def Let_def split: sum.splits if_splits)
  then show ?thesis
    by (induction rule: list_all2_induct) auto
qed

lemma FindByName_append:
  "FindByName (globalParams @ localParams) name =
     (case FindByName globalParams name of
        Some p \<Rightarrow> Some p
      | None \<Rightarrow> FindByName localParams name)"
  by (induction globalParams) auto

lemma FindByName_first:
  "FindByName ps name = Some p \<longleftrightarrow>
     (\<exists>i < length ps. ps ! i = p \<and> ParamName p = name \<and> (\<forall>j < i. ParamName (ps ! j) \<noteq> name))"
proof (induction ps)
  case Nil
  then show ?case by simp
next
  case (Cons q ps)
  show ?case
  proof (cases "ParamName q = name")
    case True
    have "(\<exists>i < length (q # ps). (q # ps) ! i = p \<and> ParamName p = name
              \<and> (\<forall>j < i. ParamName ((q # ps) ! j) \<noteq> name)) \<longleftrightarrow> q = p"
    proof
      assume "\<exists>i < length (q # ps). (q # ps) ! i = p \<and> ParamName p = name
              \<and> (\<forall>j < i. ParamName ((q # ps) ! j) \<noteq> name)"
      then obtain i where i: "(q # ps) ! i = p" "\<forall>j < i. ParamName ((q # ps) ! j) \<noteq> name"
        by blast
      with True have "i = 0" by (cases i) auto
      with i show "q = p" by simp
    next
      assume "q = p"
      with True show "\<exists>i < length (q # ps). (q # ps) ! i = p \<and> ParamName p = name
              \<and> (\<forall>j < i. ParamName ((q # ps) ! j) \<noteq> name)"
        by (intro exI [of _ 0]) simp
    qed
    with True show ?thesis by simp
  next
    case False
    have "(\<exists>i < length (q # ps). (q # ps) ! i = p \<and> ParamName p = name
              \<and> (\<forall>j < i. ParamName ((q # ps) ! j) \<noteq> name))
          \<longleftrightarrow> (\<exists>i < length ps. ps ! i = p \<and> ParamName p = name
              \<and> (\<forall>j < i. ParamName (ps ! j) \<noteq> name))" (is "?L \<longleftrightarrow> ?R")
    proof
      assume ?L
      then obtain i where i: "i < length (q # ps)" "(q # ps) ! i = p" "ParamName p = name"
        "\<forall>j < i. ParamName ((q # ps) ! j) \<noteq> name"
        by blast
      with False obtain i' where i': "i = Suc i'" by (cases i) auto
      with i have "i' < length ps \<and> ps ! i' = p \<and> ParamName p = name
              \<and> (\<forall>j < i'. ParamName (ps ! j) \<noteq> name)"
        by auto
      then show ?R by blast
    next
      assume ?R
      then obtain i where i: "i < length ps" "ps ! i = p" "ParamName p = name"
        "\<forall>j < i. ParamName (ps ! j) \<noteq> name"
        by blast
      with False have "Suc i < length (q # ps) \<and> (q # ps) ! Suc i = p \<and> ParamName p = name
              \<and> (\<forall>j < Suc i. ParamName ((q # ps) ! j) \<noteq> name)"
        by (auto simp: less_Suc_eq_0_disj)
      then show ?L by blast
    qed
    with False Cons.IH show ?thesis by simp
  qed
qed

text \<open>
  C9: the security definitions of every operation definition are built from the
  \<open>security\<close> field of its operation whenever the operation has one, and from the
  security requirements of the document exactly when it has none. An operation with an
  empty \<open>security\<close> list has no security definitions, whatever the document's
  requirements are.
\<close>

theorem OperationDefinitions_security:
  "(OperationDefinitions h \<rho> swagger = Inr ods \<and> od \<in> set ods \<longrightarrow>
      (\<exists>pathItem op.
         lookup (t_Paths swagger) (Path od) = Some pathItem
         \<and> lookup (pi_Operations pathItem) (Method od) = Some op
         \<and> SecurityDefinitions od =
             (case op_Security op of
                Some security \<Rightarrow> DescribeSecurityDefinition \<rho> security
              | None \<Rightarrow> DescribeSecurityDefinition \<rho> (t_Security swagger))))
   \<and> DescribeSecurityDefinition \<rho> [] = []"
proof (intro conjI impI)
  show "DescribeSecurityDefinition \<rho> [] = []"
    by (simp add: DescribeSecurityDefinition_def)
next
  assume "OperationDefinitions h \<rho> swagger = Inr ods \<and> od \<in> set ods"
  then have "OperationDefinitions h \<rho> swagger = Inr ods" and "od \<in> set ods"
    by simp_all
  from OperationDefinitions_member [OF this] obtain requestPath pathItem globalParams opName
    where item: "lookup (t_Paths swagger) requestPath = Some pathItem"
      and step: "operation_step h \<rho> swagger requestPath pathItem globalParams opName = Inr od"
    by blast
  from operation_step_facts [OF step] item
  show "\<exists>pathItem op.
         lookup (t_Paths swagger) (Path od) = Some pathItem
         \<and> lookup (pi_Operations pathItem) (Method od) = Some op
         \<and> SecurityDefinitions od =
             (case op_Security op of
                Some security \<Rightarrow> DescribeSecurityDefinition \<rho> security
              | None \<Rightarrow> DescribeSecurityDefinition \<rho> (t_Security swagger))"
    by auto
qed

text \<open>
  C5: the parameter lists of every operation definition are filtered from the list of
  the parameters of its path followed by the parameters of the operation itself;
  \<open>FindByName\<close> returns the first parameter of the name in a list, so over the merged
  list a parameter of the path wins over a parameter of the operation with the same name.
\<close>

theorem merged_parameters_shared_first:
  "(OperationDefinitions h \<rho> swagger = Inr ods \<and> od \<in> set ods \<longrightarrow>
      (\<exists>pathItem globalParams localParams.
         lookup (t_Paths swagger) (Path od) = Some pathItem
         \<and> DescribeParameters h (pi_Parameters pathItem) [] = Inr globalParams
         \<and> map ParamName globalParams = map (\<lambda>p. p_Name (pr_Value p)) (pi_Parameters pathItem)
         \<and> DescribeParameters h (op_Parameters (od_Spec od))
              [op_OperationID (od_Spec od) @ ''Params''] = Inr localParams
         \<and> map ParamName localParams =
             map (\<lambda>p. p_Name (pr_Value p)) (op_Parameters (od_Spec od))
         \<and> QueryParams od = FilterParameterDefinitionByType (globalParams @ localParams) ''query''
         \<and> HeaderParams od = FilterParameterDefinitionByType (globalParams @ localParams) ''header''
         \<and> CookieParams od = FilterParameterDefinitionByType (globalParams @ localParams) ''cookie''
         \<and> h_SortParamsByPath h (Path od)
              (FilterParameterDefinitionByType (globalParams @ localParams) ''path'')
             = Inr (PathParams od)))
   \<and> FindByName (globalParams' @ localParams') name =
       (case FindByName globalParams' name of
          Some p \<Rightarrow> Some p
        | None \<Rightarrow> FindByName localParams' name)
   \<and> (FindByName ps name = Some p \<longleftrightarrow>
        (\<exists>i < length ps. ps ! i = p \<and> ParamName p = name
           \<and> (\<forall>j < i. ParamName (ps ! j) \<noteq> name)))
   \<and> (shared \<in> set globalParams' \<and> ParamName shared = name \<longrightarrow>
        (\<exists>p \<in> set globalParams'. FindByName (globalParams' @ localParams') name = Some p))"
proof (intro conjI impI)
  show "FindByName (globalParams' @ localParams') name =
       (case FindByName globalParams' name of
          Some p \<Rightarrow> Some p
        | None \<Rightarrow> FindByName localParams' name)"
    by (rule FindByName_append)
next
  show "FindByName ps name = Some p \<longleftrightarrow>
        (\<exists>i < length ps. ps ! i = p \<and> ParamName p = name
           \<and> (\<forall>j < i. ParamName (ps ! j) \<noteq> name))"
    by (rule FindByName_first)
next
  assume a: "shared \<in> set globalParams' \<and> ParamName shared = name"
  have "\<exists>p \<in> set gs. FindByName gs name = Some p" if "shared \<in> set gs" for gs
    using that a by (induction gs) auto
  with a obtain p where "p \<in> set globalParams'" "FindByName globalParams' name = Some p"
    by blast
  then show "\<exists>p \<in> set globalParams'. FindByName (globalParams' @ localParams') name = Some p"
    by (auto simp: FindByName_append)
next
  assume "OperationDefinitions h \<rho> swagger = Inr ods \<and> od \<in> set ods"
  then have "OperationDefinitions h \<rho> swagger = Inr ods" and "od \<in> set ods"
    by simp_all
  from OperationDefinitions_member [OF this] obtain requestPath pathItem globalParams opName
    where item: "lookup (t_Paths swagger) requestPath = Some pathItem"
      and glob: "DescribeParameters h (pi_Parameters pathItem) [] = Inr globalParams"
      and step: "operation_step h \<rho> swagger requestPath pathItem globalParams opName = Inr od"
    by blast
  from operation_step_facts [OF step] obtain op localParams where
    "lookup (pi_Operations pathItem) opName = Some op"
    and f: "Path od = requestPath" "op_Parameters (od_Spec od) = op_Parameters op"
      "DescribeParameters h (op_Parameters op) [op_OperationID (od_Spec od) @ ''Params'']
         = Inr localParams"
      "QueryParams od = FilterParameterDefinitionByType (globalParams @ localParams) ''query''"
      "HeaderParams od = FilterParameterDefinitionByType (globalParams @ localParams) ''header''"
      "CookieParams od = FilterParameterDefinitionByType (globalParams @ localParams) ''cookie''"
      "h_SortParamsByPath h requestPath
         (FilterParameterDefinitionByType (globalParams @ localParams) ''path'')
        = Inr (PathParams od)"
    by blast
  from DescribeParameters_names [OF glob] DescribeParameters_names [OF f(3)] item glob f
  show "\<exists>pathItem globalParams localParams.
         lookup (t_Paths swagger) (Path od) = Some pathItem
         \<and> DescribeParameters h (pi_Parameters pathItem) [] = Inr globalParams
         \<and> map ParamName globalParams = map (\<lambda>p. p_Name (pr_Value p)) (pi_Parameters pathItem)
         \<and> DescribeParameters h (op_Parameters (od_Spec od))
              [op_OperationID (od_Spec od) @ ''Params''] = Inr localParams
         \<and> map ParamName localParams =
             map (\<lambda>p. p_Name (pr_Value p)) (op_Parameters (od_Spec od))
         \<and> QueryParams od = FilterParameterDefinitionByType (globalParams @ localParams) ''query''
         \<and> HeaderParams od = FilterParameterDefinitionByType (globalParams @ localParams) ''header''
         \<and> CookieParams od = FilterParameterDefinitionByType (globalParams @ localParams) ''cookie''
         \<and> h_SortParamsByPath h (Path od)
              (FilterParameterDefinitionByType (globalParams @ localParams) ''path'')
             = Inr (PathParams od)"
    by (intro exI [of _ pathItem] exI [of _ globalParams] exI [of _ localParams]) simp
qed
lemmas operation_simps = OperationDefinitions_def path_step_def operation_step_def
  DescribeParameters_def describeParameter_def DescribeSecurityDefinition_def
  GenerateTypeDefsForOperation_def GenerateParamsTypes_def params_type_step_def
  Params_def AllParams_def Style_def GoName_def generateDefaultOperationID_def
  isPathParam_def verb_prefixed_def set_Description_def
  example_parameter_def example_operation_def example_swagger_def

lemma example_swagger_run:
  "\<exists>ods. OperationDefinitions example_helpers rev example_swagger = Inr ods
     \<and> map Path ods = [''/pets'', ''/pets/{id}'', ''/pets/{id}'']
     \<and> map Method ods = [''POST'', ''DELETE'', ''GET'']
     \<and> map OperationId ods = [''AddPet'', ''DeletePet'', ''ReadPets'']
     \<and> map SecurityDefinitions ods =
         [[\<lparr>ProviderName = ''oauth'', Scopes = [''write'']\<rparr>], [],
          [\<lparr>ProviderName = ''api_key'', Scopes = []\<rparr>]]
     \<and> map (\<lambda>od. map (\<lambda>p. p_Description (pd_Spec p)) (QueryParams od)) ods =
         [[], [''shared''], [''shared'', ''local'']]
     \<and> map (\<lambda>od. map_option (\<lambda>p. p_Description (pd_Spec p))
                      (FindByName (QueryParams od) ''limit'')) ods =
         [None, Some ''shared'', Some ''shared'']
     \<and> map (\<lambda>od. map (\<lambda>p. p_Name (pr_Value p)) (op_Parameters (od_Spec od))) ods =
         [[], [], [''limit'']]"
  by (simp add: example_simps body_simps response_simps operation_simps)

theorem OperationDefinitions_security_witness:
  "\<exists>ods. OperationDefinitions example_helpers rev example_swagger = Inr ods
     \<and> map Method ods = [''POST'', ''DELETE'', ''GET'']
     \<and> map SecurityDefinitions ods =
         [[\<lparr>ProviderName = ''oauth'', Scopes = [''write'']\<rparr>], [],
          [\<lparr>ProviderName = ''api_key'', Scopes = []\<rparr>]]
     \<and> (\<exists>pathItem op.
           lookup (t_Paths example_swagger) (Path (ods ! 2)) = Some pathItem
           \<and> lookup (pi_Operations pathItem) (Method (ods ! 2)) = Some op
           \<and> SecurityDefinitions (ods ! 2) =
               (case op_Security op of
                  Some security \<Rightarrow> DescribeSecurityDefinition rev security
                | None \<Rightarrow> DescribeSecurityDefinition rev (t_Security example_swagger)))
     \<and> DescribeSecurityDefinition rev [] = []"
proof -
  from example_swagger_run obtain ods where
    run: "OperationDefinitions example_helpers rev example_swagger = Inr ods"
    and methods: "map Method ods = [''POST'', ''DELETE'', ''GET'']"
    and sec: "map SecurityDefinitions ods =
         [[\<lparr>ProviderName = ''oauth'', Scopes = [''write'']\<rparr>], [],
          [\<lparr>ProviderName = ''api_key'', Scopes = []\<rparr>]]"
    by auto
  from methods have "length ods = 3" by (metis length_map length_Cons list.size(3) numeral_3_eq_3)
  then have mem: "ods ! 2 \<in> set ods" by simp
  note inst = OperationDefinitions_security [of example_helpers rev example_swagger ods "ods ! 2"]
  from inst run mem have
    "\<exists>pathItem op.
           lookup (t_Paths example_swagger) (Path (ods ! 2)) = Some pathItem
           \<and> lookup (pi_Operations pathItem) (Method (ods ! 2)) = Some op
           \<and> SecurityDefinitions (ods ! 2) =
               (case op_Security op of
                  Some security \<Rightarrow> DescribeSecurityDefinition rev security
                | None \<Rightarrow> DescribeSecurityDefinition rev (t_Security example_swagger))"
    and "DescribeSecurityDefinition rev [] = []"
    by simp_all
  with run methods sec show ?thesis
    by (intro exI [of _ ods]) simp
qed

theorem merged_parameters_shared_first_witness:
  "\<exists>ods. OperationDefinitions example_helpers rev example_swagger = Inr ods
     \<and> map (\<lambda>od. map (\<lambda>p. p_Description (pd_Spec p)) (QueryParams od)) ods =
         [[], [''shared''], [''shared'', ''local'']]
     \<and> map (\<lambda>od. map_option (\<lambda>p. p_Description (pd_Spec p))
                      (FindByName (QueryParams od) ''limit'')) ods =
         [None, Some ''shared'', Some ''shared'']
     \<and> (\<exists>globalParams localParams.
           QueryParams (ods ! 2) =
             FilterParameterDefinitionByType (globalParams @ localParams) ''query''
           \<and> map ParamName globalParams = [''id'', ''limit'']
           \<and> map ParamName localParams = [''limit''])
     \<and> FindByName ([example_param ''query'' ''form'' None []]
                    @ [example_param ''query'' ''simple'' None []]) ''limit''
         = Some (example_param ''query'' ''form'' None [])"
proof -
  from example_swagger_run obtain ods where
    run: "OperationDefinitions example_helpers rev example_swagger = Inr ods"
    and paths: "map Path ods = [''/pets'', ''/pets/{id}'', ''/pets/{id}'']"
    and methods: "map Method ods = [''POST'', ''DELETE'', ''GET'']"
    and descr: "map (\<lambda>od. map (\<lambda>p. p_Description (pd_Spec p)) (QueryParams od)) ods =
         [[], [''shared''], [''shared'', ''local'']]"
    and found: "map (\<lambda>od. map_option (\<lambda>p. p_Description (pd_Spec p))
                      (FindByName (QueryParams od) ''limit'')) ods =
         [None, Some ''shared'', Some ''shared'']"
    and locals: "map (\<lambda>od. map (\<lambda>p. p_Name (pr_Value p)) (op_Parameters (od_Spec od))) ods =
         [[], [], [''limit'']]"
    by auto
  from methods have len: "length ods = 3"
    by (metis length_map length_Cons list.size(3) numeral_3_eq_3)
  then have mem: "ods ! 2 \<in> set ods" by simp
  from paths have path: "Path (ods ! 2) = ''/pets/{id}''"
    by (auto simp: map_eq_Cons_conv)
  note inst = merged_parameters_shared_first [of example_helpers rev example_swagger ods
      "ods ! 2" "[example_param ''query'' ''form'' None []]"
      "[example_param ''query'' ''simple'' None []]" "''limit''"
      "[example_param ''query'' ''form'' None []]" "example_param ''query'' ''form'' None []"
      "example_param ''query'' ''form'' None []"]
  from inst [THEN conjunct1, THEN mp] run mem obtain pathItem globalParams localParams where
    item: "lookup (t_Paths example_swagger) (Path (ods ! 2)) = Some pathItem"
    and glob: "map ParamName globalParams = map (\<lambda>p. p_Name (pr_Value p)) (pi_Parameters pathItem)"
    and loc: "DescribeParameters example_helpers (op_Parameters (od_Spec (ods ! 2)))
              [op_OperationID (od_Spec (ods ! 2)) @ ''Params''] = Inr localParams"
      "map ParamName localParams =
             map (\<lambda>p. p_Name (pr_Value p)) (op_Parameters (od_Spec (ods ! 2)))"
    and qs: "QueryParams (ods ! 2) =
               FilterParameterDefinitionByType (globalParams @ localParams) ''query''"
    by auto
  from item path glob have g: "map ParamName globalParams = [''id'', ''limit'']"
    by (auto simp: example_swagger_def lookup_def example_parameter_def)
  from locals len loc(2) have l: "map ParamName localParams = [''limit'']"
    by (auto simp: map_eq_Cons_conv)
  have merged: "\<exists>globalParams localParams.
           QueryParams (ods ! 2) =
             FilterParameterDefinitionByType (globalParams @ localParams) ''query''
           \<and> map ParamName globalParams = [''id'', ''limit'']
           \<and> map ParamName localParams = [''limit'']"
  proof (intro exI conjI)
    show "QueryParams (ods ! 2) =
            FilterParameterDefinitionByType (globalParams @ localParams) ''query''"
      by (rule qs)
    show "map ParamName globalParams = [''id'', ''limit'']" by (rule g)
    show "map ParamName localParams = [''limit'']" by (rule l)
  qed
  from inst [THEN conjunct2, THEN conjunct1]
  have "FindByName ([example_param ''query'' ''form'' None []]
                    @ [example_param ''query'' ''simple'' None []]) ''limit''
         = Some (example_param ''query'' ''form'' None [])"
    by (simp add: example_param_def)
  with run descr found merged show ?thesis
    by (intro exI [of _ ods]) simp
qed

section \<open>Independence of the iteration order\<close>

lemma range_keys_set:
  assumes "range_order \<rho>"
  shows "set (range_keys \<rho> m) = set (keys m)"
proof -
  have "mset (\<rho> (keys m)) = mset (keys m)"
    using assms by (simp add: range_order_def)
  then show ?thesis
    unfolding range_keys_def by (rule mset_eq_setD)
qed

lemma fold_encodings:
  "fold (\<lambda>k m. case lookup enc k of None \<Rightarrow> m | Some v \<Rightarrow> m(k \<mapsto> f v)) ks m0 =
     (\<lambda>k. if k \<in> set ks
          then (case lookup enc k of None \<Rightarrow> m0 k | Some v \<Rightarrow> Some (f v))
          else m0 k)"
proof (induction ks arbitrary: m0)
  case Nil
  then show ?case by simp
next
  case (Cons k ks)
  show ?case
    unfolding fold_simps Cons.IH
    by (auto simp: fun_eq_iff split: option.splits)
qed

lemma body_encodings_order:
  assumes "range_order \<rho>" and "range_order \<rho>'"
  shows "body_encodings \<rho> enc = body_encodings \<rho>' enc"
  unfolding body_encodings_def fold_encodings
  by (simp add: range_keys_set [OF assms(1)] range_keys_set [OF assms(2)])

lemma body_step_order:
  assumes "range_order \<rho>" and "range_order \<rho>'"
  shows "body_step h \<rho> operationID body contentType = body_step h \<rho>' operationID body contentType"
  unfolding body_step_def body_encodings_order [OF assms] ..

lemma GenerateBodyDefinitions_order:
  assumes "range_order \<rho>" and "range_order \<rho>'"
  shows "GenerateBodyDefinitions h \<rho> operationID bodyOrRef =
         GenerateBodyDefinitions h \<rho>' operationID bodyOrRef"
proof -
  have step: "body_step h \<rho> operationID body = body_step h \<rho>' operationID body" for body
    using body_step_order [OF assms] by blast
  show ?thesis
    unfolding GenerateBodyDefinitions_def step SortedKeys_sort [OF assms(1)]
      SortedKeys_sort [OF assms(2)] ..
qed

lemma response_step_order:
  assumes "range_order \<rho>" and "range_order \<rho>'"
  shows "response_step h \<rho> operationID refSet statusCode responseOrRef =
         response_step h \<rho>' operationID refSet statusCode responseOrRef"
  unfolding response_step_def SortedKeys_sort [OF assms(1)] SortedKeys_sort [OF assms(2)] ..

lemma responses_loop_order:
  assumes "range_order \<rho>" and "range_order \<rho>'"
  shows "responses_loop h \<rho> operationID responses refSet statusCodes =
         responses_loop h \<rho>' operationID responses refSet statusCodes"
  by (induction statusCodes arbitrary: refSet)
    (simp_all add: response_step_order [OF assms] split: option.splits sum.splits)

lemma GenerateResponseDefinitions_order:
  assumes "range_order \<rho>" and "range_order \<rho>'"
  shows "GenerateResponseDefinitions h \<rho> operationID responses =
         GenerateResponseDefinitions h \<rho>' operationID responses"
  unfolding GenerateResponseDefinitions_def SortedKeys_sort [OF assms(1)]
    SortedKeys_sort [OF assms(2)] responses_loop_order [OF assms] ..

lemma DescribeSecurityDefinition_order:
  assumes "range_order \<rho>" and "range_order \<rho>'"
  shows "DescribeSecurityDefinition \<rho> securityRequirements =
         DescribeSecurityDefinition \<rho>' securityRequirements"
  unfolding DescribeSecurityDefinition_def SortedKeys_sort [OF assms(1)]
    SortedKeys_sort [OF assms(2)] ..

lemma operation_step_order:
  assumes "range_order \<rho>" and "range_order \<rho>'"
  shows "operation_step h \<rho> swagger requestPath pathItem globalParams opName =
         operation_step h \<rho>' swagger requestPath pathItem globalParams opName"
  unfolding operation_step_def GenerateBodyDefinitions_order [OF assms]
    GenerateResponseDefinitions_order [OF assms] DescribeSecurityDefinition_order [OF assms] ..

lemma path_step_order:
  assumes "range_order \<rho>" and "range_order \<rho>'"
  shows "path_step h \<rho> swagger requestPath = path_step h \<rho>' swagger requestPath"
proof -
  have step: "operation_step h \<rho> swagger requestPath pathItem globalParams =
        operation_step h \<rho>' swagger requestPath pathItem globalParams" for pathItem globalParams
    using operation_step_order [OF assms] by blast
  show ?thesis
    unfolding path_step_def step SortedKeys_sort [OF assms(1)] SortedKeys_sort [OF assms(2)] ..
qed

text \<open>
  C7: the operation definitions do not depend on the order in which the maps of the
  document are visited. Whatever orders two runs over the same document meet, both fail
  with the same error or both return the same list: the keys of every map are sorted
  before the loop over them, and the one loop over a map in visiting order, the one
  that copies the encodings of a body, builds a map again.
\<close>

theorem OperationDefinitions_deterministic:
  assumes "range_order \<rho>" and "range_order \<rho>'"
  shows "OperationDefinitions h \<rho> swagger = OperationDefinitions h \<rho>' swagger"
proof -
  have step: "path_step h \<rho> swagger = path_step h \<rho>' swagger"
    using path_step_order [OF assms] by blast
  show ?thesis
    unfolding OperationDefinitions_def step SortedKeys_sort [OF assms(1)]
      SortedKeys_sort [OF assms(2)] ..
qed

theorem OperationDefinitions_deterministic_witness:
  "OperationDefinitions example_helpers rev example_swagger =
     OperationDefinitions example_helpers (\<lambda>ks. ks) example_swagger
   \<and> (\<exists>ods. OperationDefinitions example_helpers rev example_swagger = Inr ods
          \<and> map OperationId ods = [''AddPet'', ''DeletePet'', ''ReadPets''])"
  using OperationDefinitions_deterministic [OF range_order_rev range_order_id,
      of example_helpers example_swagger] example_swagger_run
  by auto

end
